theory Spec2Isabelle
  imports Main "HOL-Library.Sublist" "HOL-Library.Multiset"
begin

section \<open>Python strings\<close>

text \<open>
  The checkers work on Python \<open>str\<close> values. A string is modelled as a list of
  characters whose code points lie below 256, so that one \<open>char\<close> is one code point.
  The methods of \<open>str\<close> the checkers call are written out below, following the
  behaviour of CPython on such strings.
\<close>

text \<open>The code points below 256 for which \<open>str.isspace\<close> holds.\<close>

definition whitespace :: "char list" where
  "whitespace = [CHR 0x09, CHR 0x0A, CHR 0x0B, CHR 0x0C, CHR 0x0D, CHR 0x1C, CHR 0x1D,
                 CHR 0x1E, CHR 0x1F, CHR 0x20, CHR 0x85, CHR 0xA0]"

definition isspace :: "char \<Rightarrow> bool" where
  "isspace c = (c \<in> set whitespace)"

text \<open>\<open>s.lstrip()\<close>, \<open>s.rstrip()\<close>, \<open>s.strip()\<close> and \<open>s.rstrip(chars)\<close>.\<close>

definition py_lstrip :: "string \<Rightarrow> string" where
  "py_lstrip s = dropWhile isspace s"

definition py_rstrip :: "string \<Rightarrow> string" where
  "py_rstrip s = rev (dropWhile isspace (rev s))"

definition py_strip :: "string \<Rightarrow> string" where
  "py_strip s = py_rstrip (py_lstrip s)"

definition py_rstrip_chars :: "string \<Rightarrow> string \<Rightarrow> string" where
  "py_rstrip_chars s cs = rev (dropWhile (\<lambda>c. c \<in> set cs) (rev s))"

text \<open>\<open>s.startswith(p)\<close>, \<open>s.endswith(p)\<close> and the substring test \<open>p in s\<close>.\<close>

definition startswith :: "string \<Rightarrow> string \<Rightarrow> bool" where
  "startswith s p = prefix p s"

definition endswith :: "string \<Rightarrow> string \<Rightarrow> bool" where
  "endswith s p = prefix (rev p) (rev s)"

fun py_in :: "string \<Rightarrow> string \<Rightarrow> bool" where
  "py_in p [] = (p = [])"
| "py_in p (c # cs) = (prefix p (c # cs) \<or> py_in p cs)"

text \<open>
  \<open>s.split(sep)\<close> for a separator of one character: the pieces between the
  occurrences of the separator, at least one piece.
\<close>

fun py_split_char :: "char \<Rightarrow> string \<Rightarrow> string list" where
  "py_split_char sep [] = [[]]"
| "py_split_char sep (c # cs) =
     (if c = sep then [] # py_split_char sep cs
      else (case py_split_char sep cs of
              [] \<Rightarrow> [[c]]
            | p # ps \<Rightarrow> (c # p) # ps))"

text \<open>
  \<open>s.split()\<close>: the maximal runs of characters that are not whitespace. The
  recursion is on the length of the string, which \<open>dropWhile\<close> never increases.
\<close>

function py_split :: "string \<Rightarrow> string list" where
  "py_split s =
     (let s1 = dropWhile isspace s
      in if s1 = [] then []
         else takeWhile (\<lambda>c. \<not> isspace c) s1 # py_split (dropWhile (\<lambda>c. \<not> isspace c) s1))"
  by pat_completeness auto

termination
proof (relation "measure length")
  show "wf (measure length)" by simp
next
  fix s s1 :: string
  assume s1: "s1 = dropWhile isspace s" and ne: "s1 \<noteq> []"
  have "\<not> isspace (hd s1)"
    using ne s1 hd_dropWhile by metis
  then have "length (dropWhile (\<lambda>c. \<not> isspace c) s1) < length s1"
    using ne by (cases s1) (auto intro: le_imp_less_Suc length_dropWhile_le)
  also have "length s1 \<le> length s"
    using s1 by (simp add: length_dropWhile_le)
  finally show "(dropWhile (\<lambda>c. \<not> isspace c) s1, s) \<in> measure length" by simp
qed

declare py_split.simps [simp del]

text \<open>
  \<open>s.split(None, 1)\<close>: the first run of non-whitespace characters and, when
  anything but whitespace follows it, the rest of the string from its first
  non-whitespace character on. The result has zero, one or two elements.
\<close>

definition py_split1 :: "string \<Rightarrow> string list" where
  "py_split1 s =
     (let s1 = dropWhile isspace s
      in if s1 = [] then []
         else (let w = takeWhile (\<lambda>c. \<not> isspace c) s1;
                   r = dropWhile isspace (dropWhile (\<lambda>c. \<not> isspace c) s1)
               in if r = [] then [w] else [w, r]))"

text \<open>\<open>sep.join(parts)\<close>.\<close>

fun py_join :: "string \<Rightarrow> string list \<Rightarrow> string" where
  "py_join sep [] = []"
| "py_join sep [p] = p"
| "py_join sep (p # q # ps) = p @ sep @ py_join sep (q # ps)"

text \<open>The exceptions of Python that the modelled functions can raise.\<close>

datatype error = ValueError | IndexError | TypeError | AttributeError

section \<open>The Dockerfile instruction parser\<close>

text \<open>
  \<open>parse_dockerfile\<close> of \<open>check_dockerfile.py\<close>. The loop keeps three variables:
  the instructions found so far, the keyword of an open continuation (or
  \<open>None\<close>) and the fragments of its argument. The tuple assignment
  \<open>instruction, arg = line.split(None, 1)\<close> raises \<open>ValueError\<close> unless the split
  has exactly two elements.
\<close>

type_synonym instruction = "string \<times> string"

record parse_state =
  instructions :: "instruction list"
  current_instruction :: "string option"
  current_args :: "string list"

definition backslash :: string where
  "backslash = [CHR 0x5C]"

definition newline :: char where
  "newline = CHR 0x0A"

definition unpack2 :: "string list \<Rightarrow> error + (string \<times> string)" where
  "unpack2 xs = (case xs of [a, b] \<Rightarrow> Inr (a, b) | _ \<Rightarrow> Inl ValueError)"

definition parse_line :: "parse_state \<Rightarrow> string \<Rightarrow> error + parse_state" where
  "parse_line st raw =
     (let line = py_strip raw
      in if line = [] \<or> startswith line ''#'' then Inr st
         else if endswith line backslash then
           (case current_instruction st of
              None \<Rightarrow>
                (case unpack2 (py_split1 line) of
                   Inl e \<Rightarrow> Inl e
                 | Inr (instruction, arg) \<Rightarrow>
                     Inr (st\<lparr>current_instruction := Some instruction,
                             current_args := [py_strip (py_rstrip_chars arg backslash)]\<rparr>))
            | Some _ \<Rightarrow>
                Inr (st\<lparr>current_args :=
                          current_args st @ [py_strip (py_rstrip_chars line backslash)]\<rparr>))
         else
           (case current_instruction st of
              Some cur \<Rightarrow>
                Inr (st\<lparr>instructions :=
                          instructions st @ [(cur, py_join '' '' (current_args st @ [line]))],
                        current_instruction := None,
                        current_args := []\<rparr>)
            | None \<Rightarrow>
                (case unpack2 (py_split1 line) of
                   Inl e \<Rightarrow> Inl e
                 | Inr (instruction, arg) \<Rightarrow>
                     Inr (st\<lparr>instructions := instructions st @ [(instruction, arg)]\<rparr>))))"

fun parse_lines :: "parse_state \<Rightarrow> string list \<Rightarrow> error + parse_state" where
  "parse_lines st [] = Inr st"
| "parse_lines st (l # ls) =
     (case parse_line st l of Inl e \<Rightarrow> Inl e | Inr st' \<Rightarrow> parse_lines st' ls)"

definition parse_dockerfile :: "string \<Rightarrow> error + instruction list" where
  "parse_dockerfile content =
     (case parse_lines \<lparr>instructions = [], current_instruction = None, current_args = []\<rparr>
             (py_split_char newline content) of
        Inl e \<Rightarrow> Inl e
      | Inr st \<Rightarrow> Inr (instructions st))"

section \<open>The Dockerfile checks\<close>

text \<open>
  The six checks of \<open>check_dockerfile.py\<close>. Each takes the instruction list of
  \<open>parse_dockerfile\<close> and returns its list of error messages.
\<close>

definition check_base_image :: "instruction list \<Rightarrow> string list" where
  "check_base_image instrs =
     (case instrs of
        [] \<Rightarrow> [''Dockerfile must start with FROM instruction'']
      | (instruction, base_image) # _ \<Rightarrow>
          if instruction \<noteq> ''FROM'' then [''Dockerfile must start with FROM instruction'']
          else if \<not> startswith base_image ''python:3.11'' then [''Base image must be python:3.11'']
          else [])"

definition required_env_vars :: "string set" where
  "required_env_vars =
     {''PYTHONUNBUFFERED'', ''PYTHONDONTWRITEBYTECODE'', ''POETRY_VERSION'', ''POETRY_HOME'',
      ''POETRY_VIRTUALENVS_IN_PROJECT'', ''POETRY_NO_INTERACTION'', ''PYSETUP_PATH'',
      ''VENV_PATH''}"

text \<open>
  The key that \<open>check_environment_variables\<close> reads off the argument of an
  \<open>ENV\<close> instruction. \<open>args.split()[0]\<close> raises \<open>IndexError\<close> when the argument
  holds nothing but whitespace.
\<close>

definition env_key :: "string \<Rightarrow> error + string" where
  "env_key args =
     (if py_in ''='' args then Inr (py_strip (hd (py_split_char CHR ''='' args)))
      else (case py_split args of
              [] \<Rightarrow> Inl IndexError
            | w # _ \<Rightarrow> Inr (py_strip w)))"

fun found_env_vars :: "string set \<Rightarrow> instruction list \<Rightarrow> error + string set" where
  "found_env_vars found [] = Inr found"
| "found_env_vars found ((instruction, args) # rest) =
     (if instruction = ''ENV'' then
        (case env_key args of
           Inl e \<Rightarrow> Inl e
         | Inr key \<Rightarrow> found_env_vars (insert key found) rest)
      else found_env_vars found rest)"

text \<open>
  \<open>required_env_vars\<close> is a Python set, and the language does not fix the order in
  which \<open>for var in required_env_vars\<close> visits it. The model takes that order as
  the argument \<open>order\<close>: a list of the elements of the set, each once.
\<close>

definition iteration_of :: "string set \<Rightarrow> string list \<Rightarrow> bool" where
  "iteration_of S order = (distinct order \<and> set order = S)"

definition check_environment_variables :: "string list \<Rightarrow> instruction list \<Rightarrow> error + string list" where
  "check_environment_variables order instrs =
     (case found_env_vars {} instrs of
        Inl e \<Rightarrow> Inl e
      | Inr found \<Rightarrow>
          Inr (map (\<lambda>var. ''Missing required environment variable: '' @ var)
                 (filter (\<lambda>var. var \<notin> found) order)))"

fun poetry_installation_loop :: "instruction list \<Rightarrow> bool" where
  "poetry_installation_loop [] = False"
| "poetry_installation_loop ((instruction, args) # rest) =
     (if instruction = ''RUN'' \<and> py_in ''curl -sSL https://install.python-poetry.org'' args
      then True else poetry_installation_loop rest)"

definition check_poetry_installation :: "instruction list \<Rightarrow> string list" where
  "check_poetry_installation instrs =
     (if \<not> poetry_installation_loop instrs then [''Poetry installation command not found''] else [])"

text \<open>The two flags of \<open>check_dependencies_installation\<close>: (copy found, install found).\<close>

fun dependencies_flags :: "bool \<times> bool \<Rightarrow> instruction list \<Rightarrow> bool \<times> bool" where
  "dependencies_flags flags [] = flags"
| "dependencies_flags (copy_requirements_found, poetry_install_found) ((instruction, args) # rest) =
     (if instruction = ''COPY'' \<and> py_in ''pyproject.toml'' args \<and> py_in ''poetry.lock'' args
      then dependencies_flags (True, poetry_install_found) rest
      else if instruction = ''RUN'' \<and> py_in ''poetry install'' args
      then dependencies_flags (copy_requirements_found, True) rest
      else dependencies_flags (copy_requirements_found, poetry_install_found) rest)"

definition check_dependencies_installation :: "instruction list \<Rightarrow> string list" where
  "check_dependencies_installation instrs =
     (case dependencies_flags (False, False) instrs of
        (copy_requirements_found, poetry_install_found) \<Rightarrow>
          (if \<not> copy_requirements_found
           then [''Must copy pyproject.toml and poetry.lock files''] else []) @
          (if \<not> poetry_install_found
           then [''Must install dependencies using poetry install''] else []))"

text \<open>
  The loop of \<open>check_healthcheck\<close> stops at the first \<open>HEALTHCHECK\<close>
  instruction; it returns whether one was found and the errors so far.
\<close>

fun healthcheck_loop :: "instruction list \<Rightarrow> bool \<times> string list" where
  "healthcheck_loop [] = (False, [])"
| "healthcheck_loop ((instruction, args) # rest) =
     (if instruction = ''HEALTHCHECK'' then
        (True,
         if \<not> py_in ''--interval'' args \<or> \<not> py_in ''--timeout'' args \<or> \<not> py_in ''--retries'' args
         then [''Healthcheck must specify interval, timeout, and retries''] else [])
      else healthcheck_loop rest)"

definition check_healthcheck :: "instruction list \<Rightarrow> string list" where
  "check_healthcheck instrs =
     (case healthcheck_loop instrs of
        (healthcheck_found, errors) \<Rightarrow>
          if \<not> healthcheck_found then errors @ [''Healthcheck configuration not found'']
          else errors)"

definition required_labels :: "string set" where
  "required_labels = {''maintainer'', ''version'', ''description''}"

fun label_keys :: "string set \<Rightarrow> string list \<Rightarrow> string set" where
  "label_keys found [] = found"
| "label_keys found (label # rest) =
     (if py_in ''='' label
      then label_keys (insert (py_strip (hd (py_split_char CHR ''='' label))) found) rest
      else label_keys found rest)"

fun found_labels :: "string set \<Rightarrow> instruction list \<Rightarrow> string set" where
  "found_labels found [] = found"
| "found_labels found ((instruction, args) # rest) =
     (if instruction = ''LABEL'' then found_labels (label_keys found (py_split args)) rest
      else found_labels found rest)"

definition check_labels :: "string list \<Rightarrow> instruction list \<Rightarrow> string list" where
  "check_labels order instrs =
     map (\<lambda>label. ''Missing required label: '' @ label)
       (filter (\<lambda>label. label \<notin> found_labels {} instrs) order)"

text \<open>
  The loop of \<open>main\<close> over the six checks, in its order: the findings of all
  checks, or the exception that one of them raised.
\<close>

definition dockerfile_checks :: "string list \<Rightarrow> string list \<Rightarrow> instruction list \<Rightarrow> error + string list" where
  "dockerfile_checks env_order label_order instrs =
     (case check_environment_variables env_order instrs of
        Inl e \<Rightarrow> Inl e
      | Inr env_errors \<Rightarrow>
          Inr (check_base_image instrs @ env_errors @ check_poetry_installation instrs @
               check_dependencies_installation instrs @ check_healthcheck instrs @
               check_labels label_order instrs))"

text \<open>
  The exit status of \<open>main\<close>, from the point where the content of the Dockerfile
  has been read: 1 when any check reported an error, and 1 as well when an
  exception was raised, which \<open>main\<close> catches.
\<close>

definition main_status :: "string list \<Rightarrow> string list \<Rightarrow> string \<Rightarrow> nat" where
  "main_status env_order label_order content =
     (case parse_dockerfile content of
        Inl e \<Rightarrow> 1
      | Inr instrs \<Rightarrow>
          (case dockerfile_checks env_order label_order instrs of
             Inl e \<Rightarrow> 1
           | Inr errors \<Rightarrow> if errors \<noteq> [] then 1 else 0))"

section \<open>Notions used to state the parser's properties\<close>

text \<open>
  The physical lines of a Dockerfile that carry an instruction: stripped of
  surrounding whitespace, neither blank nor a comment. \<open>split_instruction\<close>
  reads such a line as a keyword (its first run of non-whitespace characters)
  and an argument (what follows the whitespace after the keyword).
\<close>

definition instruction_lines :: "string \<Rightarrow> string list" where
  "instruction_lines content =
     filter (\<lambda>l. l \<noteq> [] \<and> \<not> startswith l ''#'')
       (map py_strip (py_split_char newline content))"

definition split_instruction :: "string \<Rightarrow> instruction" where
  "split_instruction l =
     (takeWhile (\<lambda>c. \<not> isspace c) l,
      dropWhile isspace (dropWhile (\<lambda>c. \<not> isspace c) l))"

text \<open>\<open>unlines\<close> builds a text from its physical lines.\<close>

definition unlines :: "string list \<Rightarrow> string" where
  "unlines ls = py_join [newline] ls"

definition two_line_dockerfile :: string where
  "two_line_dockerfile =
     unlines [''# base image'', ''FROM python:3.11-slim'', '''', ''  RUN  poetry install  '', '''']"

section \<open>Notions used to state the properties of the Dockerfile checks\<close>

text \<open>
  The argument of an \<open>ENV\<close> instruction declares a key in the form \<open>KEY=VALUE\<close>,
  or in the form \<open>KEY VALUE\<close> with a value that holds no \<open>=\<close>.
\<close>

definition env_declares :: "string \<Rightarrow> string \<Rightarrow> bool" where
  "env_declares args key =
     (startswith args (key @ ''='') \<or> (startswith args (key @ '' '') \<and> \<not> py_in ''='' args))"

text \<open>The elements of the two sets in the order of the source text, as one possible iteration order.\<close>

definition env_order_literal :: "string list" where
  "env_order_literal =
     [''PYTHONUNBUFFERED'', ''PYTHONDONTWRITEBYTECODE'', ''POETRY_VERSION'', ''POETRY_HOME'',
      ''POETRY_VIRTUALENVS_IN_PROJECT'', ''POETRY_NO_INTERACTION'', ''PYSETUP_PATH'',
      ''VENV_PATH'']"

definition label_order_literal :: "string list" where
  "label_order_literal = [''maintainer'', ''version'', ''description'']"

text \<open>
  Sample Dockerfiles. The first has everything the checks ask for. The second
  and the third each lack one of its two \<open>RUN\<close> lines: one installs Poetry but
  never runs \<open>poetry install\<close>, the other runs \<open>poetry install\<close> but never
  installs Poetry. The instruction list \<open>env_with_equals\<close> declares all eight
  keys, one of them as \<open>ENV KEY VALUE\<close> with a value that holds \<open>=\<close>.
\<close>

definition env_lines :: "string list" where
  "env_lines =
     [''ENV PYTHONUNBUFFERED=1'',
      ''ENV PYTHONDONTWRITEBYTECODE 1'',
      ''ENV POETRY_VERSION=1.7.1'',
      ''ENV POETRY_HOME /opt/poetry'',
      ''ENV POETRY_VIRTUALENVS_IN_PROJECT=true'',
      ''ENV POETRY_NO_INTERACTION=1'',
      ''ENV PYSETUP_PATH=/opt/pysetup'',
      ''ENV VENV_PATH /opt/pysetup/.venv'']"

definition tail_lines :: "string list" where
  "tail_lines =
     [''COPY pyproject.toml poetry.lock ./'',
      ''HEALTHCHECK --interval=5s --timeout=3s --retries=3 CMD curl -f http://localhost:8000/health'',
      ''LABEL maintainer=platform version=1.0 description=service'']"

definition conformant_dockerfile :: string where
  "conformant_dockerfile =
     unlines ([''FROM python:3.11-slim''] @ env_lines @
              [''RUN curl -sSL https://install.python-poetry.org | python3 -''] @
              [''RUN poetry install --no-root''] @ tail_lines)"

definition installer_only_dockerfile :: string where
  "installer_only_dockerfile =
     unlines ([''FROM python:3.11-slim''] @ env_lines @
              [''RUN curl -sSL https://install.python-poetry.org | python3 -''] @ tail_lines)"

definition install_only_dockerfile :: string where
  "install_only_dockerfile =
     unlines ([''FROM python:3.11-slim''] @ env_lines @
              [''RUN poetry install --no-root''] @ tail_lines)"

definition env_with_equals :: "instruction list" where
  "env_with_equals =
     [(''ENV'', ''PYTHONUNBUFFERED=1''),
      (''ENV'', ''PYTHONDONTWRITEBYTECODE 1''),
      (''ENV'', ''POETRY_VERSION=1.7.1''),
      (''ENV'', ''POETRY_HOME /opt/poetry''),
      (''ENV'', ''POETRY_VIRTUALENVS_IN_PROJECT=true''),
      (''ENV'', ''POETRY_NO_INTERACTION=1''),
      (''ENV'', ''PYSETUP_PATH /opt/py=setup''),
      (''ENV'', ''VENV_PATH /opt/pysetup/.venv'')]"

text \<open>The instruction lists that the three Dockerfiles parse to.\<close>

definition env_instructions :: "instruction list" where
  "env_instructions =
     [(''ENV'', ''PYTHONUNBUFFERED=1''),
      (''ENV'', ''PYTHONDONTWRITEBYTECODE 1''),
      (''ENV'', ''POETRY_VERSION=1.7.1''),
      (''ENV'', ''POETRY_HOME /opt/poetry''),
      (''ENV'', ''POETRY_VIRTUALENVS_IN_PROJECT=true''),
      (''ENV'', ''POETRY_NO_INTERACTION=1''),
      (''ENV'', ''PYSETUP_PATH=/opt/pysetup''),
      (''ENV'', ''VENV_PATH /opt/pysetup/.venv'')]"

definition tail_instructions :: "instruction list" where
  "tail_instructions =
     [(''COPY'', ''pyproject.toml poetry.lock ./''),
      (''HEALTHCHECK'',
       ''--interval=5s --timeout=3s --retries=3 CMD curl -f http://localhost:8000/health''),
      (''LABEL'', ''maintainer=platform version=1.0 description=service'')]"

definition conformant_instructions :: "instruction list" where
  "conformant_instructions =
     [(''FROM'', ''python:3.11-slim'')] @ env_instructions @
     [(''RUN'', ''curl -sSL https://install.python-poetry.org | python3 -''),
      (''RUN'', ''poetry install --no-root'')] @ tail_instructions"

definition installer_only_instructions :: "instruction list" where
  "installer_only_instructions =
     [(''FROM'', ''python:3.11-slim'')] @ env_instructions @
     [(''RUN'', ''curl -sSL https://install.python-poetry.org | python3 -'')] @ tail_instructions"

definition install_only_instructions :: "instruction list" where
  "install_only_instructions =
     [(''FROM'', ''python:3.11-slim'')] @ env_instructions @
     [(''RUN'', ''poetry install --no-root'')] @ tail_instructions"

section \<open>The compose validator\<close>

text \<open>
  \<open>str.lower\<close> on code points below 256: each capital letter of ASCII and of
  Latin-1 is replaced by its small letter, 32 code points up; every other
  character stays.
\<close>

definition upper_letters :: string where
  "upper_letters = ''ABCDEFGHIJKLMNOPQRSTUVWXYZ'' @
       [CHR 0xC0, CHR 0xC1, CHR 0xC2, CHR 0xC3, CHR 0xC4, CHR 0xC5, CHR 0xC6, CHR 0xC7,
        CHR 0xC8, CHR 0xC9, CHR 0xCA, CHR 0xCB, CHR 0xCC, CHR 0xCD, CHR 0xCE, CHR 0xCF,
        CHR 0xD0, CHR 0xD1, CHR 0xD2, CHR 0xD3, CHR 0xD4, CHR 0xD5, CHR 0xD6, CHR 0xD8,
        CHR 0xD9, CHR 0xDA, CHR 0xDB, CHR 0xDC, CHR 0xDD, CHR 0xDE]"

definition lower_letters :: string where
  "lower_letters = ''abcdefghijklmnopqrstuvwxyz'' @
       [CHR 0xE0, CHR 0xE1, CHR 0xE2, CHR 0xE3, CHR 0xE4, CHR 0xE5, CHR 0xE6, CHR 0xE7,
        CHR 0xE8, CHR 0xE9, CHR 0xEA, CHR 0xEB, CHR 0xEC, CHR 0xED, CHR 0xEE, CHR 0xEF,
        CHR 0xF0, CHR 0xF1, CHR 0xF2, CHR 0xF3, CHR 0xF4, CHR 0xF5, CHR 0xF6, CHR 0xF8,
        CHR 0xF9, CHR 0xFA, CHR 0xFB, CHR 0xFC, CHR 0xFD, CHR 0xFE]"

definition lower_char :: "char \<Rightarrow> char" where
  "lower_char c = (case map_of (zip upper_letters lower_letters) c of Some l \<Rightarrow> l | None \<Rightarrow> c)"

definition py_lower :: "string \<Rightarrow> string" where
  "py_lower s = map lower_char s"

text \<open>
  The values that \<open>yaml.safe_load\<close> returns: strings, lists, mappings, and
  everything else (null, booleans, numbers) as \<open>YOther\<close>. A mapping is the list of
  its entries, in the order of the file; its keys are strings and are distinct.
\<close>

datatype yaml = YStr string | YList "yaml list" | YMap "(string \<times> yaml) list" | YOther

definition python_service_indicators :: "string list" where
  "python_service_indicators =
     [''python'', ''django'', ''flask'', ''fastapi'', ''celery'',
      ''worker'', ''api'', ''service'', ''app'', ''backend'',
      ''foundation'', ''agent'', ''model'', ''processor'', ''analyzer'']"

definition is_python_service :: "string \<Rightarrow> bool" where
  "is_python_service service_name =
     (\<exists>indicator\<in>set python_service_indicators. py_in indicator (py_lower service_name))"

text \<open>
  The part of \<open>validate_compose_service\<close> on the build context. The comparisons
  with \<open>==\<close> are false for a value that is not a string; \<open>.startswith\<close> on a
  \<open>dockerfile\<close> entry that is not a string raises \<open>AttributeError\<close>.
\<close>

definition context_errors :: "string \<Rightarrow> (string \<times> yaml) list \<Rightarrow> error + string list" where
  "context_errors service_name build =
     (case map_of build ''context'' of
        None \<Rightarrow> Inr []
      | Some context \<Rightarrow>
          if service_name = ''dev'' then
            Inr ((if \<not> (context = YStr ''./containers/dev-environment'' \<or> context = YStr ''.''
                        \<or> context = YStr ''../..'')
                  then [''Dev container build context should be '' @
                        [CHR 0x27] @ ''./containers/dev-environment'' @ [CHR 0x27] @ '', '' @
                        [CHR 0x27] @ ''.'' @ [CHR 0x27] @ '' or '' @
                        [CHR 0x27] @ ''../..'' @ [CHR 0x27]]
                  else []) @
                 (case map_of build ''dockerfile'' of
                    None \<Rightarrow> []
                  | Some dockerfile \<Rightarrow>
                      if \<not> (dockerfile = YStr ''Dockerfile''
                             \<or> dockerfile = YStr ''containers/dev-environment/Dockerfile'')
                      then [''Dev container dockerfile should be '' @
                            [CHR 0x27] @ ''Dockerfile'' @ [CHR 0x27] @ '' or '' @
                            [CHR 0x27] @ ''containers/dev-environment/Dockerfile'' @ [CHR 0x27]]
                      else []))
          else
            (let e1 = (if \<not> (context = YStr (''./containers/'' @ service_name)
                              \<or> context = YStr ''.'')
                       then [''Build context should be '' @
                             [CHR 0x27] @ ''./containers/'' @ service_name @ [CHR 0x27] @
                             '' or '' @ [CHR 0x27] @ ''.'' @ [CHR 0x27]]
                       else []);
                 e2 = (case map_of build ''dockerfile'' of
                         None \<Rightarrow> []
                       | Some dockerfile \<Rightarrow>
                           if context = YStr (''./containers/'' @ service_name)
                              \<and> dockerfile \<noteq> YStr ''Dockerfile''
                           then [''When using component context, dockerfile should be '' @
                                 [CHR 0x27] @ ''Dockerfile'' @ [CHR 0x27]]
                           else [])
             in if context = YStr ''.'' then
                  (case map_of build ''dockerfile'' of
                     None \<Rightarrow> Inr (e1 @ e2)
                   | Some (YStr dockerfile) \<Rightarrow>
                       if \<not> startswith dockerfile (''containers/'' @ service_name @ ''/'')
                       then Inr (e1 @ e2 @
                              [''When using root context, dockerfile should include component path''])
                       else Inr (e1 @ e2)
                   | Some _ \<Rightarrow> Inl AttributeError)
                else Inr (e1 @ e2)))"

definition args_errors :: "string \<Rightarrow> (string \<times> yaml) list \<Rightarrow> string list" where
  "args_errors service_name build =
     (case map_of build ''args'' of
        Some (YMap args) \<Rightarrow>
          if \<not> (\<exists>arg\<in>set (map fst args). py_in ''poetry'' (py_lower arg))
             \<and> is_python_service service_name
          then [''Python service '' @ service_name @ '' should include Poetry-related build args'']
          else []
      | _ \<Rightarrow> [])"

definition build_errors :: "string \<Rightarrow> (string \<times> yaml) list \<Rightarrow> error + string list" where
  "build_errors service_name service_config =
     (case map_of service_config ''build'' of
        Some (YMap build) \<Rightarrow>
          (case context_errors service_name build of
             Inl e \<Rightarrow> Inl e
           | Inr errors \<Rightarrow> Inr (errors @ args_errors service_name build))
      | _ \<Rightarrow> Inr [])"

definition is_poetry_volume :: "yaml \<Rightarrow> bool" where
  "is_poetry_volume volume =
     (case volume of
        YStr v \<Rightarrow> py_in ''pyproject.toml'' v \<or> py_in ''poetry.lock'' v
      | _ \<Rightarrow> False)"

definition volumes_errors :: "string \<Rightarrow> (string \<times> yaml) list \<Rightarrow> string list" where
  "volumes_errors service_name service_config =
     (case map_of service_config ''volumes'' of
        Some (YList volumes) \<Rightarrow>
          if \<not> (\<exists>volume\<in>set volumes. is_poetry_volume volume) \<and> is_python_service service_name
          then [''Python service '' @ service_name @
                '' should mount pyproject.toml/poetry.lock for development'',
                ''  Consider adding: '' @ [CHR 0x27] @ ''./containers/'' @ service_name @
                ''/pyproject.toml:/app/pyproject.toml'' @ [CHR 0x27]]
          else []
      | _ \<Rightarrow> [])"

text \<open>\<open>python_path_found\<close>, for the three shapes of the \<open>environment\<close> entry.\<close>

definition python_path_found :: "yaml \<Rightarrow> bool" where
  "python_path_found env_vars =
     (case env_vars of
        YList envs \<Rightarrow>
          (\<exists>env\<in>set envs. case env of YStr e \<Rightarrow> py_in ''PYTHONPATH'' e | _ \<Rightarrow> False)
      | YMap m \<Rightarrow> ''PYTHONPATH'' \<in> set (map fst m)
      | _ \<Rightarrow> False)"

definition environment_errors :: "string \<Rightarrow> (string \<times> yaml) list \<Rightarrow> string list" where
  "environment_errors service_name service_config =
     (case map_of service_config ''environment'' of
        None \<Rightarrow> []
      | Some env_vars \<Rightarrow>
          if \<not> python_path_found env_vars \<and> is_python_service service_name
          then [''Python service '' @ service_name @
                '' should define PYTHONPATH environment variable'']
          else [])"

definition validate_compose_service :: "string \<Rightarrow> (string \<times> yaml) list \<Rightarrow> error + string list" where
  "validate_compose_service service_name service_config =
     (case build_errors service_name service_config of
        Inl e \<Rightarrow> Inl e
      | Inr errors \<Rightarrow>
          Inr (errors @ volumes_errors service_name service_config @
               environment_errors service_name service_config))"

text \<open>
  The \<open>dockerfile\<close> entry of the build mapping of a service, when there is one,
  is a string.
\<close>

definition dockerfile_is_text :: "(string \<times> yaml) list \<Rightarrow> bool" where
  "dockerfile_is_text service_config =
     (case map_of service_config ''build'' of
        Some (YMap build) \<Rightarrow>
          (case map_of build ''dockerfile'' of
             None \<Rightarrow> True
           | Some (YStr _) \<Rightarrow> True
           | Some _ \<Rightarrow> False)
      | _ \<Rightarrow> True)"

text \<open>Two entries for a service \<open>worker-api\<close>: without and with an \<open>environment\<close> key.\<close>

definition worker_api_build_only :: "(string \<times> yaml) list" where
  "worker_api_build_only = [(''build'', YMap [(''context'', YStr ''./containers/worker-api'')])]"

definition worker_api_with_environment :: "(string \<times> yaml) list" where
  "worker_api_with_environment =
     [(''build'', YMap [(''context'', YStr ''./containers/worker-api'')]),
      (''environment'', YList [YStr ''LOG_LEVEL=debug''])]"

section \<open>Python syntax trees\<close>

text \<open>
  The validators of \<open>container_validator.py\<close> parse a source text with
  \<open>ast.parse\<close> and visit the nodes of the tree with \<open>ast.walk\<close>. Of a node they
  look at three things only: whether it is an \<open>Assign\<close> and which of its targets
  are plain names; whether it is an \<open>ImportFrom\<close>, with its module, level and
  line; and its child nodes. The model keeps just that. \<open>Other\<close> stands for every
  other kind of node, with its child nodes in the order of \<open>ast.iter_child_nodes\<close>;
  expressions, which hold no statement, are left out of the children, and the
  targets of an assignment are kept as a field.
\<close>

datatype expr = Name string | OtherExpr

datatype node =
    Module "node list"
  | Assign "expr list"
  | ImportFrom "string option" nat nat
  | Other "node list"

text \<open>
  \<open>ast.walk\<close>: breadth first, from a queue that starts with the root; each node
  taken from the front has its children appended at the back.
\<close>

fun walk_queue :: "node list \<Rightarrow> node list" where
  "walk_queue [] = []"
| "walk_queue (Module body # todo) = Module body # walk_queue (todo @ body)"
| "walk_queue (Other children # todo) = Other children # walk_queue (todo @ children)"
| "walk_queue (Assign targets # todo) = Assign targets # walk_queue todo"
| "walk_queue (ImportFrom module level lineno # todo) =
     ImportFrom module level lineno # walk_queue todo"

definition walk :: "node \<Rightarrow> node list" where
  "walk tree = walk_queue [tree]"

text \<open>
  The outcome of \<open>ast.parse\<close>: a tree, a \<open>SyntaxError\<close>, or another exception
  (such as the \<open>ValueError\<close> for a source with null bytes), the last two with the
  text of the exception.
\<close>

datatype parse_result = Parsed node | SyntaxError string | ParseFailure string

section \<open>The file system\<close>

text \<open>
  A directory tree: a file with its text, or a directory with its entries in the
  order in which the operating system lists them. A path is the list of its
  parts. Reading a directory as a file fails with the message of the operating
  system.
\<close>

datatype fsnode = File string | Dir "(string \<times> fsnode) list"

fun lookup :: "fsnode \<Rightarrow> string list \<Rightarrow> fsnode option" where
  "lookup n [] = Some n"
| "lookup (File _) (p # ps) = None"
| "lookup (Dir entries) (p # ps) =
     (case map_of entries p of None \<Rightarrow> None | Some n \<Rightarrow> lookup n ps)"

definition exists :: "fsnode \<Rightarrow> string list \<Rightarrow> bool" where
  "exists root path = (lookup root path \<noteq> None)"

definition is_dir :: "fsnode \<Rightarrow> string list \<Rightarrow> bool" where
  "is_dir root path = (case lookup root path of Some (Dir _) \<Rightarrow> True | _ \<Rightarrow> False)"

text \<open>\<open>str(path)\<close>, and the text of the exception of \<open>open\<close> on a directory.\<close>

definition str_path :: "string list \<Rightarrow> string" where
  "str_path parts = py_join ''/'' parts"

definition read_text :: "string list \<Rightarrow> fsnode \<Rightarrow> string list \<Rightarrow> string + string" where
  "read_text base root path =
     (case lookup root path of
        Some (File text) \<Rightarrow> Inr text
      | Some (Dir _) \<Rightarrow>
          Inl (''[Errno 21] Is a directory: '' @ [CHR 0x27] @ str_path (base @ path) @ [CHR 0x27])
      | None \<Rightarrow>
          Inl (''[Errno 2] No such file or directory: '' @ [CHR 0x27] @ str_path (base @ path) @
               [CHR 0x27]))"

text \<open>
  Writing a text to an existing file: the file that \<open>lookup\<close> finds at the path
  gets the new text; nothing else changes.
\<close>

fun write_entry :: "string \<Rightarrow> (fsnode \<Rightarrow> fsnode) \<Rightarrow> (string \<times> fsnode) list \<Rightarrow> (string \<times> fsnode) list" where
  "write_entry p f [] = []"
| "write_entry p f ((name, n) # entries) =
     (if name = p then (name, f n) # entries else (name, n) # write_entry p f entries)"

fun write_text :: "fsnode \<Rightarrow> string list \<Rightarrow> string \<Rightarrow> fsnode" where
  "write_text (File _) [] text = File text"
| "write_text (Dir entries) [] text = Dir entries"
| "write_text (File old) (p # ps) text = File old"
| "write_text (Dir entries) (p # ps) text =
     Dir (write_entry p (\<lambda>n. write_text n ps text) entries)"

text \<open>
  \<open>path.rglob(pattern)\<close>, as paths relative to the root: the directories are
  visited parent first, and in each the entries whose name matches are yielded
  in their order.
\<close>

fun rglob :: "(string \<Rightarrow> bool) \<Rightarrow> string list \<Rightarrow> fsnode \<Rightarrow> string list list" where
  "rglob matches pre (File _) = []"
| "rglob matches pre (Dir entries) =
     map (\<lambda>(name, n). pre @ [name]) (filter (\<lambda>(name, n). matches name) entries) @
     concat (map (\<lambda>(name, n). rglob matches (pre @ [name]) n) entries)"

definition py_pattern :: "string \<Rightarrow> bool" where
  "py_pattern name = endswith name ''.py''"

definition any_pattern :: "string \<Rightarrow> bool" where
  "any_pattern name = True"

definition rglob_under :: "(string \<Rightarrow> bool) \<Rightarrow> fsnode \<Rightarrow> string list \<Rightarrow> string list list" where
  "rglob_under matches root path =
     (case lookup root path of None \<Rightarrow> [] | Some n \<Rightarrow> rglob matches path n)"

section \<open>The container validator\<close>

definition EXCLUDED_DIRS :: "string set" where
  "EXCLUDED_DIRS =
     {''__pycache__'', ''common'', ''tools'', ''monitoring'', ''.pytest_cache'', ''.git'',
      ''.venv'', ''node_modules'', ''build'', ''dist'', ''coverage'', ''.coverage'',
      ''.mypy_cache'', ''.tox'', ''.eggs''}"

text \<open>\<open>dir_path.parts\<close> is the argument of \<open>should_skip_directory\<close>.\<close>

definition should_skip_directory :: "string list \<Rightarrow> bool" where
  "should_skip_directory parts =
     ((\<exists>part\<in>set parts. startswith part ''.'') \<or> (\<exists>part\<in>set parts. part \<in> EXCLUDED_DIRS))"

text \<open>
  The outcome of \<open>black.format_str\<close> on a source text: the formatted text, the
  exception \<open>black.InvalidInput\<close>, or another exception, the last two with the
  text of the exception. The formatter is a library; the functions below take
  it as the argument \<open>format_str\<close>, and \<open>ast.parse\<close> as the argument \<open>ast_parse\<close>.
\<close>

datatype format_result = Formatted string | InvalidInput string | FormatFailure string

text \<open>
  A container directory is given by the parts of its path (\<open>base\<close>) and the tree
  found there (\<open>root\<close>). Paths inside it are relative to \<open>base\<close>.
\<close>

definition path_name :: "string list \<Rightarrow> string" where
  "path_name parts = (if parts = [] then [] else last parts)"

definition has_python_code :: "fsnode \<Rightarrow> bool" where
  "has_python_code root = (rglob py_pattern [] root \<noteq> [] \<and> exists root [''src''])"

definition is_utility_container :: "string \<Rightarrow> bool" where
  "is_utility_container container_name =
     (container_name \<in> set [''common'', ''tools'', ''monitoring'', ''resource_monitor''])"

text \<open>
  One turn of the loop of \<open>format_python_files\<close>: the errors so far and the
  tree, before and after the file \<open>py_file\<close>.
\<close>

definition format_file :: "(string \<Rightarrow> format_result) \<Rightarrow> string list \<Rightarrow> string list \<times> fsnode \<Rightarrow> string list \<Rightarrow> string list \<times> fsnode" where
  "format_file format_str base state py_file =
     (case state of (errors, root) \<Rightarrow>
        if should_skip_directory (base @ butlast py_file) then (errors, root)
        else (case read_text base root py_file of
                Inl e \<Rightarrow>
                  (errors @ [''Error reading/writing '' @ str_path (base @ py_file) @ '': '' @ e],
                   root)
              | Inr src \<Rightarrow>
                  (case format_str src of
                     Formatted formatted_src \<Rightarrow> (errors, write_text root py_file formatted_src)
                   | InvalidInput e \<Rightarrow>
                       (errors @ [''Syntax error in '' @ str_path (base @ py_file) @ '': '' @ e],
                        root)
                   | FormatFailure e \<Rightarrow>
                       (errors @
                        [''Error reading/writing '' @ str_path (base @ py_file) @ '': '' @ e],
                        root))))"

definition format_python_files :: "(string \<Rightarrow> format_result) \<Rightarrow> string list \<Rightarrow> fsnode \<Rightarrow> string list \<times> fsnode" where
  "format_python_files format_str base root =
     foldl (format_file format_str base) ([], root) (rglob py_pattern [] root)"

definition is_all_assign :: "node \<Rightarrow> bool" where
  "is_all_assign n =
     (case n of
        Assign targets \<Rightarrow>
          (\<exists>t\<in>set targets. case t of Name ident \<Rightarrow> ident = ''__all__'' | OtherExpr \<Rightarrow> False)
      | _ \<Rightarrow> False)"

definition is_import_from :: "node \<Rightarrow> bool" where
  "is_import_from n = (case n of ImportFrom _ _ _ \<Rightarrow> True | _ \<Rightarrow> False)"

text \<open>What \<open>validate_init_file\<close> does with the tree, once the file is read and parsed.\<close>

definition init_tree_errors :: "string \<Rightarrow> node \<Rightarrow> string list" where
  "init_tree_errors init_file tree =
     (let has_all = (\<exists>n\<in>set (walk tree). is_all_assign n)
      in if \<not> has_all \<and> (\<exists>n\<in>set (walk tree). is_import_from n)
         then [''Missing __all__ definition in '' @ init_file @ '' when it contains imports'']
         else [])"

definition validate_init_file :: "(string \<Rightarrow> parse_result) \<Rightarrow> string list \<Rightarrow> fsnode \<Rightarrow> string list \<Rightarrow> string list" where
  "validate_init_file ast_parse base root init_file =
     (case read_text base root init_file of
        Inl e \<Rightarrow> [''Error reading '' @ str_path (base @ init_file) @ '': '' @ e]
      | Inr content \<Rightarrow>
          (case ast_parse content of
             Parsed tree \<Rightarrow> init_tree_errors (str_path (base @ init_file)) tree
           | SyntaxError e \<Rightarrow> [''Syntax error in '' @ str_path (base @ init_file) @ '': '' @ e]
           | ParseFailure e \<Rightarrow> [''Error reading '' @ str_path (base @ init_file) @ '': '' @ e]))"

text \<open>The finding of \<open>validate_imports\<close> for one node of the walk, if any.\<close>

definition import_error :: "string \<Rightarrow> node \<Rightarrow> string list" where
  "import_error py_file n =
     (case n of
        ImportFrom module level lineno \<Rightarrow>
          if level > 0 then
            [''Relative import found in '' @ py_file @ '': from '' @ replicate level CHR ''.'' @
             (case module of None \<Rightarrow> [] | Some m \<Rightarrow> m) @ '' import ...'']
          else (case module of
                  None \<Rightarrow> []
                | Some m \<Rightarrow>
                    if m \<noteq> [] \<and> startswith m ''containers.'' then
                      [''Deprecated import format in '' @ py_file @ '': from '' @ m @
                       '' import ... (should start with the container name directly, e.g., '' @
                       [CHR 0x27] @ ''foundation.'' @ [CHR 0x27] @ '' instead of '' @
                       [CHR 0x27] @ ''containers.foundation.'' @ [CHR 0x27] @ '')'']
                    else [])
      | _ \<Rightarrow> [])"

definition import_tree_errors :: "string \<Rightarrow> node \<Rightarrow> string list" where
  "import_tree_errors py_file tree = concat (map (import_error py_file) (walk tree))"

definition validate_imports :: "(string \<Rightarrow> parse_result) \<Rightarrow> string list \<Rightarrow> fsnode \<Rightarrow> string list \<Rightarrow> string list" where
  "validate_imports ast_parse base root py_file =
     (case read_text base root py_file of
        Inl e \<Rightarrow> [''Error reading '' @ str_path (base @ py_file) @ '': '' @ e]
      | Inr content \<Rightarrow>
          (case ast_parse content of
             Parsed tree \<Rightarrow> import_tree_errors (str_path (base @ py_file)) tree
           | SyntaxError e \<Rightarrow> [''Syntax error in '' @ str_path (base @ py_file) @ '': '' @ e]
           | ParseFailure e \<Rightarrow> [''Error reading '' @ str_path (base @ py_file) @ '': '' @ e]))"

text \<open>
  \<open>validate_python_package\<close>; \<open>package_path\<close> is relative to the container.
  \<open>package_path / package_name\<close> is \<open>package_path\<close> itself when the name is empty.
\<close>

definition name_parts :: "string \<Rightarrow> string list" where
  "name_parts name = (if name = [] then [] else [name])"

definition validate_python_package :: "(string \<Rightarrow> parse_result) \<Rightarrow> string list \<Rightarrow> fsnode \<Rightarrow> string list \<Rightarrow> string \<Rightarrow> string list" where
  "validate_python_package ast_parse base root package_path package_name =
     (let root_init = package_path @ name_parts package_name @ [''__init__.py''] in
      (if \<not> exists root root_init \<and> package_name \<noteq> ''tests'' then
         [''Missing package __init__.py file at '' @
          str_path (name_parts package_name @ [''__init__.py''])]
       else if exists root root_init then validate_init_file ast_parse base root root_init
       else []) @
      concat (map (\<lambda>py_dir.
                if is_dir root py_dir \<and> \<not> should_skip_directory (base @ py_dir) then
                  (if \<not> exists root (py_dir @ [''__init__.py'']) then
                     [''Missing __init__.py in Python package directory: '' @
                      str_path (drop (length package_path) py_dir)]
                   else validate_init_file ast_parse base root (py_dir @ [''__init__.py'']))
                else [])
              (rglob_under any_pattern root package_path)) @
      concat (map (\<lambda>py_file.
                if path_name py_file \<noteq> ''__init__.py''
                   \<and> \<not> should_skip_directory (base @ butlast py_file)
                then validate_imports ast_parse base root py_file
                else [])
              (rglob_under py_pattern root package_path)))"

definition validate_poetry_configuration :: "fsnode \<Rightarrow> string list" where
  "validate_poetry_configuration root =
     (if \<not> exists root [''pyproject.toml''] \<and> has_python_code root
      then [''Missing pyproject.toml (required for Poetry dependency management)''] else []) @
     (if exists root [''requirements.txt'']
      then [''requirements.txt found - should use pyproject.toml with Poetry instead''] else []) @
     (if exists root [''setup.py'']
      then [''setup.py found - should use pyproject.toml with Poetry instead''] else [])"

text \<open>
  \<open>validate_container_structure\<close> returns its findings; the model returns the
  tree as the function leaves it as well.
\<close>

definition structure_checks :: "(string \<Rightarrow> parse_result) \<Rightarrow> string list \<Rightarrow> fsnode \<Rightarrow> string list" where
  "structure_checks ast_parse base root =
     (if is_dir root [] then
        (if \<not> is_utility_container (path_name base) \<and> \<not> exists root [''Dockerfile'']
         then [''Missing required file: Dockerfile''] else []) @
        (if has_python_code root then
           (if exists root [''src'']
            then validate_python_package ast_parse base root [''src''] (path_name base) else []) @
           (if exists root [''tests''] then
              (if \<not> exists root [''tests'', ''__init__.py'']
               then [''Missing __init__.py in tests directory'']
               else validate_python_package ast_parse base root [''tests''] ''tests'')
            else [])
         else []) @
        validate_poetry_configuration root
      else [])"

definition validate_container_structure :: "(string \<Rightarrow> format_result) \<Rightarrow> (string \<Rightarrow> parse_result) \<Rightarrow> string list \<Rightarrow> fsnode \<Rightarrow> string list \<times> fsnode" where
  "validate_container_structure format_str ast_parse base root =
     (if path_name base \<in> EXCLUDED_DIRS then ([], root)
      else (case (if has_python_code root then format_python_files format_str base root
                  else ([], root)) of
              (format_errors, root') \<Rightarrow>
                (format_errors @ structure_checks ast_parse base root', root')))"

section \<open>The Poetry validator\<close>

text \<open>
  The values that \<open>tomli.load\<close> returns: tables, strings, arrays, and everything
  else (numbers, booleans, dates) as \<open>TOther\<close>. The loader is a library; it is
  the argument \<open>tomli_load\<close>, which gives the top-level table of a text, or
  \<open>None\<close> when it raises.
\<close>

datatype toml = TTable "(string \<times> toml) list" | TStr string | TList "toml list" | TOther

text \<open>
  The walk of \<open>validate_poetry_config\<close> down the parts of a section name. It
  succeeds on tables only: on any other value either the part is not found,
  or \<open>current[part]\<close> raises \<open>TypeError\<close>, or \<open>part not in current\<close> does; the
  function returns \<open>False\<close> in each of these cases.
\<close>

fun section_present :: "toml \<Rightarrow> string list \<Rightarrow> bool" where
  "section_present current [] = True"
| "section_present (TTable entries) (part # parts) =
     (case map_of entries part of None \<Rightarrow> False | Some v \<Rightarrow> section_present v parts)"
| "section_present _ (part # parts) = False"

definition REQUIRED_SECTIONS :: "string list list" where
  "REQUIRED_SECTIONS = [[''tool'', ''poetry''], [''tool'', ''poetry'', ''dependencies'']]"

definition REQUIRED_FIELDS :: "string list" where
  "REQUIRED_FIELDS = [''name'', ''version'', ''description'']"

text \<open>\<open>table.get(key, {})\<close>, and \<open>key in value\<close> where it does not raise.\<close>

definition get_or_empty :: "toml \<Rightarrow> string \<Rightarrow> toml" where
  "get_or_empty t key =
     (case t of
        TTable entries \<Rightarrow> (case map_of entries key of None \<Rightarrow> TTable [] | Some v \<Rightarrow> v)
      | _ \<Rightarrow> TTable [])"

definition key_in :: "string \<Rightarrow> toml \<Rightarrow> bool option" where
  "key_in key t =
     (case t of
        TTable entries \<Rightarrow> Some (key \<in> set (map fst entries))
      | TStr s \<Rightarrow> Some (py_in key s)
      | TList vs \<Rightarrow> Some (TStr key \<in> set vs)
      | TOther \<Rightarrow> None)"

text \<open>
  \<open>validate_poetry_config\<close> of \<open>poetry_validator.py\<close>, on the tree of the
  container. Every path of it returns a boolean; what it prints is left out.
\<close>

definition validate_poetry_config :: "(string \<Rightarrow> (string \<times> toml) list option) \<Rightarrow> fsnode \<Rightarrow> bool" where
  "validate_poetry_config tomli_load root =
     (if \<not> exists root [''pyproject.toml''] then False
      else if exists root [''requirements.txt''] then False
      else if exists root [''setup.py''] then False
      else (case lookup root [''pyproject.toml''] of
              Some (File text) \<Rightarrow>
                (case tomli_load text of
                   None \<Rightarrow> False
                 | Some entries \<Rightarrow>
                     (let pyproject_data = TTable entries;
                          poetry_section = get_or_empty (get_or_empty pyproject_data ''tool'') ''poetry''
                      in if \<not> (\<forall>section\<in>set REQUIRED_SECTIONS.
                                  section_present pyproject_data section) then False
                         else if \<not> (\<forall>field\<in>set REQUIRED_FIELDS.
                                       key_in field poetry_section = Some True) then False
                         else (case key_in ''python'' (get_or_empty poetry_section ''dependencies'') of
                                 Some True \<Rightarrow> True
                               | _ \<Rightarrow> False)))
            | _ \<Rightarrow> False))"

section \<open>The standards checker\<close>

text \<open>
  \<open>check_containers\<close> of \<open>check_standards.py\<close> calls three validators on each
  container directory. A report holds what they returned for one directory:
  the list of \<open>validate_container_structure\<close>, the boolean of
  \<open>validate_poetry_config\<close>, and the pair of error and warning lists of
  \<open>validate_dockerfile\<close> when the directory has a Dockerfile.
\<close>

record container_report =
  container_dir :: string
  structure_errors :: "string list"
  poetry_errors :: bool
  dockerfile_result :: "(string list \<times> string list) option"

text \<open>
  The body of the loop, on the state \<open>(all_valid, printed)\<close>. \<open>if poetry_errors:\<close>
  takes the boolean as the condition, and \<open>for error in poetry_errors:\<close>
  iterates over it: when it is \<open>True\<close>, the loop is entered after the headline is
  printed and raises \<open>TypeError\<close>, which nothing catches.
\<close>

definition bullet_lines :: "string list \<Rightarrow> string list" where
  "bullet_lines errors = map (\<lambda>error. ''  - '' @ error) errors"

definition warning_lines :: "string list \<Rightarrow> string list" where
  "warning_lines warnings = map (\<lambda>warning. ''  - Warning: '' @ warning) warnings"

definition check_container :: "bool \<times> string list \<Rightarrow> container_report \<Rightarrow> (string list \<times> error) + (bool \<times> string list)" where
  "check_container state report =
     (case state of (all_valid, printed) \<Rightarrow>
        (let (all_valid1, printed1) =
               (if structure_errors report \<noteq> [] then
                  (False,
                   printed @
                   [''Container structure validation errors in '' @ container_dir report @ '':''] @
                   bullet_lines (structure_errors report))
                else (all_valid, printed))
         in if poetry_errors report then
              Inl (printed1 @ [''Poetry configuration errors in '' @ container_dir report @ '':''],
                   TypeError)
            else
              (case dockerfile_result report of
                 None \<Rightarrow> Inr (all_valid1, printed1)
               | Some (dockerfile_errors, dockerfile_warnings) \<Rightarrow>
                   (let (all_valid2, printed2) =
                          (if dockerfile_errors \<noteq> [] then
                             (False,
                              printed1 @
                              [''Dockerfile validation errors in '' @ container_dir report @
                               ''/Dockerfile:''] @
                              bullet_lines dockerfile_errors)
                           else (all_valid1, printed1))
                    in Inr (all_valid2,
                            if dockerfile_warnings \<noteq> [] then
                              printed2 @
                              [''Dockerfile validation warnings in '' @ container_dir report @
                               ''/Dockerfile:''] @
                              warning_lines dockerfile_warnings
                            else printed2)))))"

fun check_container_dirs :: "bool \<times> string list \<Rightarrow> container_report list \<Rightarrow> (string list \<times> error) + (bool \<times> string list)" where
  "check_container_dirs state [] = Inr state"
| "check_container_dirs state (report # reports) =
     (case check_container state report of
        Inl raised \<Rightarrow> Inl raised
      | Inr state' \<Rightarrow> check_container_dirs state' reports)"

text \<open>
  \<open>check_containers\<close>: the reports of the container directories in the order of
  the loop, and the list of \<open>validate_compose_file\<close> when the compose file
  exists. It returns \<open>all_valid\<close>, here together with what was printed, or
  raises.
\<close>

definition check_containers :: "container_report list \<Rightarrow> string list option \<Rightarrow> (string list \<times> error) + (bool \<times> string list)" where
  "check_containers reports compose_errors =
     (case check_container_dirs (True, [''Validating containers...'']) reports of
        Inl raised \<Rightarrow> Inl raised
      | Inr (all_valid, printed) \<Rightarrow>
          (case compose_errors of
             None \<Rightarrow> Inr (all_valid, printed)
           | Some errors \<Rightarrow>
               if errors \<noteq> [] then
                 Inr (False, printed @ [''Docker Compose validation errors:''] @ bullet_lines errors)
               else Inr (all_valid, printed)))"

text \<open>
  The exit status of the script: 1 when \<open>check_containers\<close> returned \<open>False\<close>, and
  1 as well when it raised, since the interpreter ends an uncaught exception
  with status 1; 0 otherwise.
\<close>

definition check_standards_status :: "(string list \<times> error) + (bool \<times> string list) \<Rightarrow> nat" where
  "check_standards_status outcome =
     (case outcome of Inl _ \<Rightarrow> 1 | Inr (all_valid, _) \<Rightarrow> if all_valid then 0 else 1)"

text \<open>
  The report of one container directory, from the validators modelled above.
  \<open>validate_dockerfile\<close> matches regular expressions against the text of the
  Dockerfile; it is the argument \<open>validate_dockerfile\<close>, applied to what is
  found at the path of the Dockerfile.
\<close>

definition report_of :: "(string \<Rightarrow> format_result) \<Rightarrow> (string \<Rightarrow> parse_result) \<Rightarrow> (string \<Rightarrow> (string \<times> toml) list option) \<Rightarrow> (fsnode \<Rightarrow> string list \<times> string list) \<Rightarrow> string list \<times> fsnode \<Rightarrow> container_report" where
  "report_of format_str ast_parse tomli_load validate_dockerfile container =
     (case container of (base, root) \<Rightarrow>
        (case validate_container_structure format_str ast_parse base root of
           (errors, root') \<Rightarrow>
             \<lparr>container_dir = str_path base,
              structure_errors = errors,
              poetry_errors = validate_poetry_config tomli_load root',
              dockerfile_result =
                (case lookup root' [''Dockerfile''] of
                   None \<Rightarrow> None
                 | Some n \<Rightarrow> Some (validate_dockerfile n))\<rparr>))"

text \<open>The exit status of \<open>main\<close> of \<open>dockerfile_validator.py\<close>, from the two lists.\<close>

definition dockerfile_validator_status :: "string list \<times> string list \<Rightarrow> nat" where
  "dockerfile_validator_status result =
     (case result of (errors, warnings) \<Rightarrow> if errors \<noteq> [] then 1 else 0)"

section \<open>Notions used to state the properties of the container validator\<close>

text \<open>
  The nodes of a tree at any depth, each node before its children and the
  children in their order.
\<close>

fun preorder :: "node \<Rightarrow> node list" where
  "preorder (Module body) = Module body # concat (map preorder body)"
| "preorder (Other children) = Other children # concat (map preorder children)"
| "preorder (Assign targets) = [Assign targets]"
| "preorder (ImportFrom module level lineno) = [ImportFrom module level lineno]"

definition is_relative_import :: "node \<Rightarrow> bool" where
  "is_relative_import n = (case n of ImportFrom _ level _ \<Rightarrow> level > 0 | _ \<Rightarrow> False)"

text \<open>An assignment to \<open>__all__\<close> among the statements of the module itself.\<close>

definition top_level_all :: "node \<Rightarrow> bool" where
  "top_level_all tree =
     (case tree of Module body \<Rightarrow> (\<exists>n\<in>set body. is_all_assign n) | _ \<Rightarrow> False)"

text \<open>
  A formatter is idempotent when it returns a text that it has formatted
  unchanged.
\<close>

definition idempotent :: "(string \<Rightarrow> format_result) \<Rightarrow> bool" where
  "idempotent format_str =
     (\<forall>src out. format_str src = Formatted out \<longrightarrow> format_str out = Formatted out)"

text \<open>
  Sample source texts, with a parser and a formatter that know them. The
  formatter puts spaces around the \<open>=\<close> of \<open>x=1\<close>, as black does, and returns
  every other text as it is; the parser gives the tree of each sample text and
  rejects every other text.
\<close>

definition init_with_import :: string where
  "init_with_import = unlines [''from svc.core import run'', []]"

definition init_with_all :: string where
  "init_with_all = unlines [''from svc.core import run'', ''__all__ = [run]'', []]"

definition init_with_nested_all :: string where
  "init_with_nested_all =
     unlines [''from svc.core import run'', ''if run:'', ''    __all__ = [run]'', []]"

definition relative_import_source :: string where
  "relative_import_source = unlines [''from . import helper'', []]"

definition unformatted_source :: string where
  "unformatted_source = unlines [''x=1'', []]"

definition formatted_source :: string where
  "formatted_source = unlines [''x = 1'', []]"

definition sample_parse :: "string \<Rightarrow> parse_result" where
  "sample_parse src =
     (if src = init_with_import then Parsed (Module [ImportFrom (Some ''svc.core'') 0 1])
      else if src = init_with_all
        then Parsed (Module [ImportFrom (Some ''svc.core'') 0 1, Assign [Name ''__all__'']])
      else if src = init_with_nested_all
        then Parsed (Module [ImportFrom (Some ''svc.core'') 0 1,
                             Other [Assign [Name ''__all__'']]])
      else if src = relative_import_source then Parsed (Module [ImportFrom None 1 1])
      else if src = unformatted_source \<or> src = formatted_source
        then Parsed (Module [Assign [Name ''x'']])
      else SyntaxError ''invalid syntax'')"

definition sample_format :: "string \<Rightarrow> format_result" where
  "sample_format src =
     (if src = unformatted_source then Formatted formatted_source else Formatted src)"

definition sample_base :: "string list" where
  "sample_base = [''containers'', ''svc'']"

definition sample_root :: fsnode where
  "sample_root =
     Dir [(''Dockerfile'', File ''FROM python:3.11-slim''),
          (''pyproject.toml'', File []),
          (''src'', Dir [(''svc'', Dir [(''__init__.py'', File init_with_import),
                                        (''core.py'', File unformatted_source),
                                        (''util.py'', File relative_import_source)])])]"

definition sample_root_formatted :: fsnode where
  "sample_root_formatted =
     Dir [(''Dockerfile'', File ''FROM python:3.11-slim''),
          (''pyproject.toml'', File []),
          (''src'', Dir [(''svc'', Dir [(''__init__.py'', File init_with_import),
                                        (''core.py'', File formatted_source),
                                        (''util.py'', File relative_import_source)])])]"

text \<open>
  A sample \<open>pyproject.toml\<close> with the loader's result for it, and two container
  directories named \<open>resource_monitor\<close>, which needs no Dockerfile: one with
  that file and nothing else, one empty.
\<close>

definition quoted :: "string \<Rightarrow> string" where
  "quoted s = [CHR 0x27] @ s @ [CHR 0x27]"

definition sample_pyproject :: string where
  "sample_pyproject =
     unlines [''[tool.poetry]'',
              ''name = '' @ quoted ''resource_monitor'',
              ''version = '' @ quoted ''0.1.0'',
              ''description = '' @ quoted ''Resource monitor'',
              [],
              ''[tool.poetry.dependencies]'',
              ''python = '' @ quoted ''^3.11'',
              []]"

definition sample_tomli_load :: "string \<Rightarrow> (string \<times> toml) list option" where
  "sample_tomli_load text =
     (if text = sample_pyproject then
        Some [(''tool'',
               TTable [(''poetry'',
                        TTable [(''name'', TStr ''resource_monitor''),
                                (''version'', TStr ''0.1.0''),
                                (''description'', TStr ''Resource monitor''),
                                (''dependencies'', TTable [(''python'', TStr ''^3.11'')])])])]
      else None)"

definition no_dockerfile_validator :: "fsnode \<Rightarrow> string list \<times> string list" where
  "no_dockerfile_validator n = ([], [])"

definition monitor_with_pyproject :: "string list \<times> fsnode" where
  "monitor_with_pyproject =
     ([''containers'', ''resource_monitor''], Dir [(''pyproject.toml'', File sample_pyproject)])"

definition monitor_empty :: "string list \<times> fsnode" where
  "monitor_empty = ([''containers'', ''resource_monitor''], Dir [])"

definition sample_report :: "string list \<times> fsnode \<Rightarrow> container_report" where
  "sample_report container =
     report_of sample_format sample_parse sample_tomli_load no_dockerfile_validator container"

text \<open>The text of the file at a path, when a file is there.\<close>

definition file_text :: "fsnode \<Rightarrow> string list \<Rightarrow> string option" where
  "file_text root path = (case lookup root path of Some (File text) \<Rightarrow> Some text | _ \<Rightarrow> None)"

text \<open>
  Two trees have the same shape when the same paths exist in both, the same
  paths are directories, and \<open>rglob\<close> lists the same paths.
\<close>

definition same_shape :: "fsnode \<Rightarrow> fsnode \<Rightarrow> bool" where
  "same_shape r r' =
     ((\<forall>q. exists r' q = exists r q \<and> is_dir r' q = is_dir r q) \<and>
      (\<forall>matches pre. rglob matches pre r' = rglob matches pre r))"

text \<open>
  What one turn of the loop of \<open>format_python_files\<close> adds to the errors, and
  the text that it leaves in the file of the turn.
\<close>

definition turn_errors :: "(string \<Rightarrow> format_result) \<Rightarrow> string list \<Rightarrow> fsnode \<Rightarrow> string list \<Rightarrow> string list" where
  "turn_errors format_str base root py_file =
     (if should_skip_directory (base @ butlast py_file) then []
      else (case read_text base root py_file of
              Inl e \<Rightarrow> [''Error reading/writing '' @ str_path (base @ py_file) @ '': '' @ e]
            | Inr src \<Rightarrow>
                (case format_str src of
                   Formatted _ \<Rightarrow> []
                 | InvalidInput e \<Rightarrow>
                     [''Syntax error in '' @ str_path (base @ py_file) @ '': '' @ e]
                 | FormatFailure e \<Rightarrow>
                     [''Error reading/writing '' @ str_path (base @ py_file) @ '': '' @ e])))"

definition text_after :: "(string \<Rightarrow> format_result) \<Rightarrow> string list \<Rightarrow> fsnode \<Rightarrow> string list \<Rightarrow> string option" where
  "text_after format_str base root py_file =
     (case file_text root py_file of
        None \<Rightarrow> None
      | Some src \<Rightarrow>
          if should_skip_directory (base @ butlast py_file) then Some src
          else (case format_str src of Formatted out \<Rightarrow> Some out | _ \<Rightarrow> Some src))"

section \<open>Evaluating the string functions\<close>

lemmas str_defs =
  whitespace_def isspace_def py_lstrip_def py_rstrip_def py_strip_def py_rstrip_chars_def
  startswith_def endswith_def py_split1_def backslash_def newline_def unpack2_def unlines_def

section \<open>Properties of the parser\<close>

lemma last_dropWhile: "dropWhile P xs \<noteq> [] \<Longrightarrow> last (dropWhile P xs) = last xs"
  by (induction xs) (auto split: if_splits)

lemma dropWhile_last_nonempty: "xs \<noteq> [] \<Longrightarrow> \<not> P (last xs) \<Longrightarrow> dropWhile P xs \<noteq> []"
  by (induction xs) (auto split: if_splits)

text \<open>A stripped line that is not empty begins and ends with a character that is not whitespace.\<close>

lemma py_strip_hd: "py_strip raw \<noteq> [] \<Longrightarrow> \<not> isspace (hd (py_strip raw))"
proof -
  assume ne: "py_strip raw \<noteq> []"
  define t where "t = dropWhile isspace raw"
  define u where "u = dropWhile isspace (rev t)"
  have s: "py_strip raw = rev u"
    by (simp add: py_strip_def py_rstrip_def py_lstrip_def t_def u_def)
  with ne have une: "u \<noteq> []" by simp
  then have "last u = last (rev t)" unfolding u_def by (rule last_dropWhile)
  moreover have tne: "t \<noteq> []" using une u_def by auto
  ultimately have "last u = hd t" by (simp add: last_rev)
  moreover have "\<not> isspace (hd t)" using tne unfolding t_def by (metis hd_dropWhile)
  ultimately show ?thesis using s une by (simp add: hd_rev)
qed

lemma py_strip_last: "py_strip raw \<noteq> [] \<Longrightarrow> \<not> isspace (last (py_strip raw))"
proof -
  assume ne: "py_strip raw \<noteq> []"
  define u where "u = dropWhile isspace (rev (dropWhile isspace raw))"
  have s: "py_strip raw = rev u"
    by (simp add: py_strip_def py_rstrip_def py_lstrip_def u_def)
  with ne have une: "u \<noteq> []" by simp
  then have "\<not> isspace (hd u)" unfolding u_def by (metis hd_dropWhile)
  then show ?thesis using s une by (simp add: last_rev)
qed

lemma py_split1_two:
  assumes ne: "l \<noteq> []" and h: "\<not> isspace (hd l)" and la: "\<not> isspace (last l)"
    and sp: "\<exists>c\<in>set l. isspace c"
  shows "py_split1 l = [fst (split_instruction l), snd (split_instruction l)]"
proof -
  have d: "dropWhile isspace l = l" using ne h by (cases l) auto
  have r1: "dropWhile (\<lambda>c. \<not> isspace c) l \<noteq> []"
    using sp by (simp add: dropWhile_eq_Nil_conv)
  then have "last (dropWhile (\<lambda>c. \<not> isspace c) l) = last l" by (rule last_dropWhile)
  with la have r2: "\<not> isspace (last (dropWhile (\<lambda>c. \<not> isspace c) l))" by simp
  have r3: "dropWhile isspace (dropWhile (\<lambda>c. \<not> isspace c) l) \<noteq> []"
    using r1 r2 by (rule dropWhile_last_nonempty)
  have "py_split1 l = [takeWhile (\<lambda>c. \<not> isspace c) l,
                       dropWhile isspace (dropWhile (\<lambda>c. \<not> isspace c) l)]"
    unfolding py_split1_def Let_def d using ne r3 by (simp only: if_False)
  then show ?thesis by (simp only: split_instruction_def fst_conv snd_conv)
qed

lemma parse_line_plain:
  assumes "current_instruction st = None"
    and "py_strip raw \<noteq> []" and "\<not> startswith (py_strip raw) ''#''"
    and "\<not> endswith (py_strip raw) backslash" and "\<exists>c\<in>set (py_strip raw). isspace c"
  shows "parse_line st raw =
           Inr (st\<lparr>instructions := instructions st @ [split_instruction (py_strip raw)]\<rparr>)"
  using assms
    py_split1_two [OF assms(2) py_strip_hd [OF assms(2)] py_strip_last [OF assms(2)] assms(5)]
  by (simp add: parse_line_def Let_def unpack2_def)

lemma parse_line_skip:
  "py_strip raw = [] \<or> startswith (py_strip raw) ''#'' \<Longrightarrow> parse_line st raw = Inr st"
  by (auto simp add: parse_line_def Let_def)

lemma parse_lines_plain:
  assumes "current_instruction st = None"
    and "\<forall>l\<in>set (filter (\<lambda>l. l \<noteq> [] \<and> \<not> startswith l ''#'') (map py_strip ls)).
           \<not> endswith l backslash \<and> (\<exists>c\<in>set l. isspace c)"
  shows "parse_lines st ls =
           Inr (st\<lparr>instructions := instructions st @
                  map split_instruction
                    (filter (\<lambda>l. l \<noteq> [] \<and> \<not> startswith l ''#'') (map py_strip ls))\<rparr>)"
  using assms
proof (induction ls arbitrary: st)
  case Nil
  then show ?case by simp
next
  case (Cons raw ls)
  let ?rest = "map split_instruction
                 (filter (\<lambda>l. l \<noteq> [] \<and> \<not> startswith l ''#'') (map py_strip ls))"
  show ?case
  proof (cases "py_strip raw = [] \<or> startswith (py_strip raw) ''#''")
    case True
    then have "parse_line st raw = Inr st" by (rule parse_line_skip)
    moreover have "parse_lines st ls = Inr (st\<lparr>instructions := instructions st @ ?rest\<rparr>)"
      using Cons.prems True by (intro Cons.IH) auto
    ultimately show ?thesis using True by auto
  next
    case False
    let ?st = "st\<lparr>instructions := instructions st @ [split_instruction (py_strip raw)]\<rparr>"
    have "parse_line st raw = Inr ?st"
      using Cons.prems False by (intro parse_line_plain) auto
    moreover have "parse_lines ?st ls = Inr (?st\<lparr>instructions := instructions ?st @ ?rest\<rparr>)"
      using Cons.prems False by (intro Cons.IH) auto
    ultimately show ?thesis using False by auto
  qed
qed

lemma two_line_dockerfile_lines:
  "instruction_lines two_line_dockerfile = [''FROM python:3.11-slim'', ''RUN  poetry install'']"
  by (simp add: two_line_dockerfile_def instruction_lines_def str_defs)

text \<open>
  Claim C9. Take a Dockerfile text whose instruction lines (the non-blank,
  non-comment physical lines, stripped) are valid, each a keyword followed by
  whitespace and an argument, and of which none ends with the continuation
  marker. Then \<open>parse_dockerfile\<close> returns, without raising, exactly one
  (instruction, argument) pair per instruction line, in the order of the lines:
  the pair of the keyword and the argument of that line.
\<close>

theorem parse_dockerfile_no_continuation:
  assumes "\<forall>l\<in>set (instruction_lines content).
             \<not> endswith l backslash \<and> (\<exists>c\<in>set l. isspace c)"
  shows "parse_dockerfile content = Inr (map split_instruction (instruction_lines content))"
  using assms
    parse_lines_plain [of "\<lparr>instructions = [], current_instruction = None, current_args = []\<rparr>"
      "py_split_char newline content"]
  by (simp add: parse_dockerfile_def instruction_lines_def)

theorem parse_dockerfile_no_continuation_witness:
  "parse_dockerfile two_line_dockerfile =
     Inr [(''FROM'', ''python:3.11-slim''), (''RUN'', ''poetry install'')]"
proof -
  have "\<forall>l\<in>set (instruction_lines two_line_dockerfile).
          \<not> endswith l backslash \<and> (\<exists>c\<in>set l. isspace c)"
    by (simp add: two_line_dockerfile_lines str_defs)
  then show ?thesis
    using parse_dockerfile_no_continuation [of two_line_dockerfile]
    by (simp add: two_line_dockerfile_lines split_instruction_def str_defs)
qed

text \<open>
  Claim C1. A line that is a bare keyword, with no whitespace and no argument, is
  not parsed into an instruction with an empty argument: \<open>line.split(None, 1)\<close>
  has one element, the tuple assignment fails and \<open>parse_dockerfile\<close> raises
  \<open>ValueError\<close>. This happens for the bare keyword alone and after a well-formed
  line as well.
\<close>

theorem parse_dockerfile_bare_keyword_raises:
  "parse_dockerfile ''EXPOSE'' = Inl ValueError
   \<and> parse_dockerfile (unlines [''FROM python:3.11-slim'', ''EXPOSE'']) = Inl ValueError"
  by (simp add: parse_dockerfile_def parse_line_def str_defs)

text \<open>
  Whatever \<open>parse_dockerfile\<close> returns, no argument in it is blank: each holds a
  character that is not whitespace.
\<close>

lemma py_split1_second:
  assumes "py_split1 l = [w, r]" shows "\<exists>c\<in>set r. \<not> isspace c"
proof -
  define s1 where "s1 = dropWhile isspace l"
  define r' where "r' = dropWhile isspace (dropWhile (\<lambda>c. \<not> isspace c) s1)"
  have eq: "py_split1 l =
              (if s1 = [] then []
               else if r' = [] then [takeWhile (\<lambda>c. \<not> isspace c) s1]
               else [takeWhile (\<lambda>c. \<not> isspace c) s1, r'])"
    unfolding py_split1_def Let_def s1_def r'_def ..
  have "r' \<noteq> [] \<and> r = r'"
  proof (cases "s1 = []")
    case True
    with eq assms show ?thesis by simp
  next
    case False
    show ?thesis
    proof (cases "r' = []")
      case True
      with eq assms False show ?thesis by simp
    next
      case r: False
      with eq assms False show ?thesis by simp
    qed
  qed
  then have ne: "r' \<noteq> []" and r: "r = r'" by simp_all
  from ne have "\<not> isspace (hd r')" unfolding r'_def by (rule hd_dropWhile)
  moreover have "hd r' \<in> set r'" using ne by (rule hd_in_set)
  ultimately show ?thesis using r by blast
qed

lemma set_py_join_last: "set l \<subseteq> set (py_join sep (xs @ [l]))"
proof (induction xs)
  case Nil
  show ?case by simp
next
  case (Cons x xs)
  then show ?case by (cases "xs @ [l]") auto
qed

lemma parse_line_nonblank:
  assumes "parse_line st raw = Inr st'"
    and "\<forall>(i, a)\<in>set (instructions st). \<exists>c\<in>set a. \<not> isspace c"
  shows "\<forall>(i, a)\<in>set (instructions st'). \<exists>c\<in>set a. \<not> isspace c"
proof (cases "py_strip raw = [] \<or> startswith (py_strip raw) ''#''")
  case True
  then show ?thesis using assms by (auto simp: parse_line_def Let_def)
next
  case False
  then have ne: "py_strip raw \<noteq> []" by simp
  have line: "\<exists>c\<in>set (py_strip raw). \<not> isspace c"
    using py_strip_hd [OF ne] hd_in_set [OF ne] by blast
  have joined: "\<exists>c\<in>set (py_join sep (xs @ [py_strip raw])). \<not> isspace c" for sep xs
    using line set_py_join_last [of "py_strip raw" sep xs] by blast
  show ?thesis
    using assms False joined
    by (auto simp: parse_line_def Let_def unpack2_def
        split: if_splits option.splits list.splits dest: py_split1_second)
qed

lemma parse_lines_nonblank:
  assumes "parse_lines st ls = Inr st'"
    and "\<forall>(i, a)\<in>set (instructions st). \<exists>c\<in>set a. \<not> isspace c"
  shows "\<forall>(i, a)\<in>set (instructions st'). \<exists>c\<in>set a. \<not> isspace c"
  using assms
proof (induction ls arbitrary: st)
  case Nil
  then show ?case by simp
next
  case (Cons l ls)
  then obtain st1 where 1: "parse_line st l = Inr st1" and 2: "parse_lines st1 ls = Inr st'"
    by (auto split: sum.splits)
  from parse_line_nonblank [OF 1 Cons.prems(2)] Cons.IH [OF 2] show ?case by blast
qed

lemma parse_dockerfile_nonblank:
  assumes "parse_dockerfile content = Inr instrs"
  shows "\<forall>(i, a)\<in>set instrs. \<exists>c\<in>set a. \<not> isspace c"
proof -
  from assms obtain st where
    "parse_lines \<lparr>instructions = [], current_instruction = None, current_args = []\<rparr>
       (py_split_char newline content) = Inr st" and "instrs = instructions st"
    by (auto simp: parse_dockerfile_def split: sum.splits)
  then show ?thesis using parse_lines_nonblank by fastforce
qed


section \<open>Properties of the Dockerfile checks\<close>

lemma py_in_single: "py_in [c] s \<longleftrightarrow> c \<in> set s"
  by (induction s) auto

lemma dropWhile_none: "\<forall>c\<in>set xs. \<not> P c \<Longrightarrow> dropWhile P xs = xs"
  by (cases xs) auto

lemma py_strip_id: "\<forall>c\<in>set k. \<not> isspace c \<Longrightarrow> py_strip k = k"
  by (simp add: py_strip_def py_lstrip_def py_rstrip_def dropWhile_none)

text \<open>Any bare keyword raises, with or without a continuation marker at its end.\<close>

lemma parse_line_bare_keyword:
  assumes "current_instruction st = None" and "line \<noteq> []"
    and "\<forall>c\<in>set line. \<not> isspace c" and "\<not> startswith line ''#''"
  shows "parse_line st line = Inl ValueError"
proof -
  have strip: "py_strip line = line" using assms(3) by (rule py_strip_id)
  have d: "dropWhile isspace line = line" using assms(3) by (rule dropWhile_none)
  have t: "dropWhile (\<lambda>c. \<not> isspace c) line = []" using assms(3) by simp
  have "py_split1 line = [line]"
    unfolding py_split1_def Let_def d t using assms(2,3) by simp
  then show ?thesis using assms(1,2,4) strip
    by (simp add: parse_line_def Let_def unpack2_def)
qed

lemma py_split_char_nonempty: "py_split_char sep s \<noteq> []"
  by (induction s) (auto split: list.splits)

lemma py_split_char_hd: "sep \<notin> set k \<Longrightarrow> hd (py_split_char sep (k @ sep # v)) = k"
  by (induction k) (auto simp: py_split_char_nonempty split: list.splits)

lemma py_split_hd:
  assumes "k \<noteq> []" "\<forall>c\<in>set k. \<not> isspace c" "isspace d"
  shows "\<exists>ws. py_split (k @ d # v) = k # ws"
proof -
  have 1: "dropWhile isspace (k @ d # v) = k @ d # v" using assms by (cases k) auto
  have 2: "takeWhile (\<lambda>c. \<not> isspace c) (k @ d # v) = k" using assms by (simp add: takeWhile_append)
  show ?thesis by (subst py_split.simps) (simp add: 1 2 Let_def del: dropWhile_append3)
qed

lemma env_key_declared:
  assumes k: "k \<noteq> []" "\<forall>c\<in>set k. \<not> isspace c \<and> c \<noteq> CHR ''=''" and d: "env_declares args k"
  shows "env_key args = Inr k"
proof -
  have strip: "py_strip k = k" using k by (intro py_strip_id) auto
  from d consider (eq) v where "args = k @ CHR ''='' # v"
    | (sp) v where "args = k @ CHR '' '' # v" "CHR ''='' \<notin> set args"
    by (auto simp: env_declares_def startswith_def prefix_def py_in_single)
  then show ?thesis
  proof cases
    case eq
    moreover have "hd (py_split_char CHR ''='' (k @ CHR ''='' # v)) = k"
      using k by (intro py_split_char_hd) auto
    ultimately show ?thesis by (simp add: env_key_def py_in_single strip)
  next
    case sp
    obtain ws where "py_split (k @ CHR '' '' # v) = k # ws"
      using py_split_hd [of k "CHR '' ''" v] k by (auto simp: isspace_def whitespace_def)
    then show ?thesis using sp by (simp add: env_key_def py_in_single strip)
  qed
qed

lemma env_key_nonblank: "\<exists>c\<in>set a. \<not> isspace c \<Longrightarrow> \<exists>k. env_key a = Inr k"
proof -
  assume "\<exists>c\<in>set a. \<not> isspace c"
  then have "dropWhile isspace a \<noteq> []" by (simp add: dropWhile_eq_Nil_conv)
  then have "py_split a \<noteq> []" by (subst py_split.simps) (simp add: Let_def)
  then show ?thesis by (auto simp: env_key_def split: list.splits)
qed

lemma found_env_vars_ok:
  assumes "\<forall>(i, a)\<in>set instrs. i = ''ENV'' \<longrightarrow> (\<exists>k. env_key a = Inr k)"
  shows "found_env_vars F instrs =
           Inr (F \<union> {k. \<exists>a. (''ENV'', a) \<in> set instrs \<and> env_key a = Inr k})"
  using assms
proof (induction instrs arbitrary: F)
  case Nil
  show ?case by simp
next
  case (Cons x instrs)
  obtain i a where x: "x = (i, a)" by (cases x)
  have IH: "found_env_vars G instrs =
           Inr (G \<union> {k. \<exists>a. (''ENV'', a) \<in> set instrs \<and> env_key a = Inr k})" for G
    using Cons.prems by (intro Cons.IH) auto
  show ?case
  proof (cases "i = ''ENV''")
    case True
    then obtain k where k: "env_key a = Inr k" using Cons.prems x by auto
    show ?thesis using True k x by (auto simp: IH)
  next
    case False
    then show ?thesis using x by (auto simp: IH)
  qed
qed

lemma poetry_installation_loop_iff:
  "poetry_installation_loop instrs \<longleftrightarrow>
     (\<exists>(i, a)\<in>set instrs. i = ''RUN'' \<and> py_in ''curl -sSL https://install.python-poetry.org'' a)"
  by (induction instrs) auto

lemma dependencies_flags_eq:
  "dependencies_flags (c, p) instrs =
     (c \<or> (\<exists>(i, a)\<in>set instrs. i = ''COPY'' \<and> py_in ''pyproject.toml'' a \<and> py_in ''poetry.lock'' a),
      p \<or> (\<exists>(i, a)\<in>set instrs. i = ''RUN'' \<and> py_in ''poetry install'' a))"
  by (induction instrs arbitrary: c p) auto

lemma healthcheck_loop_find:
  "healthcheck_loop instrs =
     (case find (\<lambda>(i, a). i = ''HEALTHCHECK'') instrs of
        None \<Rightarrow> (False, [])
      | Some (i, a) \<Rightarrow>
          (True, if \<not> py_in ''--interval'' a \<or> \<not> py_in ''--timeout'' a \<or> \<not> py_in ''--retries'' a
                 then [''Healthcheck must specify interval, timeout, and retries''] else []))"
  by (induction instrs) auto

lemma label_keys_eq:
  "label_keys F toks =
     F \<union> {py_strip (hd (py_split_char CHR ''='' tok)) | tok. tok \<in> set toks \<and> py_in ''='' tok}"
  by (induction toks arbitrary: F) auto

lemma found_labels_eq:
  "found_labels F instrs =
     F \<union> {py_strip (hd (py_split_char CHR ''='' tok)) | tok a.
            (''LABEL'', a) \<in> set instrs \<and> tok \<in> set (py_split a) \<and> py_in ''='' tok}"
proof (induction instrs arbitrary: F)
  case Nil
  show ?case by simp
next
  case (Cons x instrs)
  obtain i a where x: "x = (i, a)" by (cases x)
  show ?case
  proof (cases "i = ''LABEL''")
    case True
    have "found_labels F (x # instrs) = found_labels (label_keys F (py_split a)) instrs"
      using True x by simp
    also have "\<dots> = label_keys F (py_split a) \<union>
        {py_strip (hd (py_split_char CHR ''='' tok)) | tok a.
            (''LABEL'', a) \<in> set instrs \<and> tok \<in> set (py_split a) \<and> py_in ''='' tok}"
      by (rule Cons.IH)
    also have "\<dots> = F \<union> {py_strip (hd (py_split_char CHR ''='' tok)) | tok a.
            (''LABEL'', a) \<in> set (x # instrs) \<and> tok \<in> set (py_split a) \<and> py_in ''='' tok}"
      unfolding label_keys_eq using True x by auto
    finally show ?thesis .
  next
    case False
    have "found_labels F (x # instrs) = found_labels F instrs"
      using False x by simp
    also have "\<dots> = F \<union>
        {py_strip (hd (py_split_char CHR ''='' tok)) | tok a.
            (''LABEL'', a) \<in> set instrs \<and> tok \<in> set (py_split a) \<and> py_in ''='' tok}"
      by (rule Cons.IH)
    also have "\<dots> = F \<union> {py_strip (hd (py_split_char CHR ''='' tok)) | tok a.
            (''LABEL'', a) \<in> set (x # instrs) \<and> tok \<in> set (py_split a) \<and> py_in ''='' tok}"
      using False x by auto
    finally show ?thesis .
  qed
qed

lemma required_env_vars_shape:
  "k \<in> required_env_vars \<Longrightarrow> k \<noteq> [] \<and> (\<forall>c\<in>set k. \<not> isspace c \<and> c \<noteq> CHR ''='')"
  by (auto simp: required_env_vars_def isspace_def whitespace_def)

lemma required_labels_shape:
  "l \<in> required_labels \<Longrightarrow> (\<forall>c\<in>set l. \<not> isspace c \<and> c \<noteq> CHR ''='')"
  by (auto simp: required_labels_def isspace_def whitespace_def)

lemma label_token_key:
  assumes "\<forall>c\<in>set l. \<not> isspace c \<and> c \<noteq> CHR ''=''" and "startswith tok (l @ ''='')"
  shows "py_in ''='' tok \<and> py_strip (hd (py_split_char CHR ''='' tok)) = l"
proof -
  from assms(2) obtain v where tok: "tok = l @ CHR ''='' # v"
    by (auto simp: startswith_def prefix_def)
  have "hd (py_split_char CHR ''='' (l @ CHR ''='' # v)) = l"
    using assms(1) by (intro py_split_char_hd) auto
  moreover have "py_strip l = l" using assms(1) by (intro py_strip_id) auto
  ultimately show ?thesis using tok by (simp add: py_in_single)
qed

lemma check_environment_variables_none_missing:
  assumes nb: "\<forall>(i, a)\<in>set instrs. \<exists>c\<in>set a. \<not> isspace c"
    and ord: "iteration_of required_env_vars env_order"
    and env: "\<forall>k\<in>required_env_vars. \<exists>(i, a)\<in>set instrs. i = ''ENV'' \<and> env_declares a k"
  shows "check_environment_variables env_order instrs = Inr []"
proof -
  let ?S = "{k. \<exists>a. (''ENV'', a) \<in> set instrs \<and> env_key a = Inr k}"
  have "\<forall>(i, a)\<in>set instrs. i = ''ENV'' \<longrightarrow> (\<exists>k. env_key a = Inr k)"
    using nb env_key_nonblank by fastforce
  then have found: "found_env_vars {} instrs = Inr ({} \<union> ?S)" by (rule found_env_vars_ok)
  have "k \<in> ?S" if k: "k \<in> required_env_vars" for k
  proof -
    from env k obtain a where a: "(''ENV'', a) \<in> set instrs" "env_declares a k" by auto
    from required_env_vars_shape [OF k] a(2) have "env_key a = Inr k"
      by (intro env_key_declared) auto
    with a(1) show ?thesis by blast
  qed
  then have "filter (\<lambda>var. var \<notin> ?S) env_order = []"
    using ord by (auto simp: iteration_of_def filter_empty_conv)
  then show ?thesis by (simp add: check_environment_variables_def found)
qed

lemma check_labels_none_missing:
  assumes ord: "iteration_of required_labels label_order"
    and lab: "\<forall>l\<in>required_labels. \<exists>(i, a)\<in>set instrs. i = ''LABEL'' \<and>
                (\<exists>tok\<in>set (py_split a). startswith tok (l @ ''=''))"
  shows "check_labels label_order instrs = []"
proof -
  have "l \<in> found_labels {} instrs" if l: "l \<in> required_labels" for l
  proof -
    from lab l obtain a tok where a: "(''LABEL'', a) \<in> set instrs" "tok \<in> set (py_split a)"
      "startswith tok (l @ ''='')" by auto
    from label_token_key [OF required_labels_shape [OF l] a(3)] a(1,2)
    show ?thesis unfolding found_labels_eq by blast
  qed
  then show ?thesis using ord by (auto simp: check_labels_def iteration_of_def filter_empty_conv)
qed


lemmas check_defs =
  check_base_image_def check_environment_variables_def env_key_def check_poetry_installation_def
  check_dependencies_installation_def check_healthcheck_def check_labels_def
  dockerfile_checks_def main_status_def env_order_literal_def label_order_literal_def
  py_split.simps

lemmas sample_defs =
  env_lines_def tail_lines_def env_instructions_def tail_instructions_def
  conformant_dockerfile_def conformant_instructions_def
  installer_only_dockerfile_def installer_only_instructions_def
  install_only_dockerfile_def install_only_instructions_def

lemma conformant_parsed: "parse_dockerfile conformant_dockerfile = Inr conformant_instructions"
  by (simp add: sample_defs parse_dockerfile_def parse_line_def str_defs)

lemma installer_only_parsed:
  "parse_dockerfile installer_only_dockerfile = Inr installer_only_instructions"
  by (simp add: sample_defs parse_dockerfile_def parse_line_def str_defs)

lemma label_tokens:
  "py_split ''maintainer=platform version=1.0 description=service'' =
     [''maintainer=platform'', ''version=1.0'', ''description=service'']"
  by (simp add: py_split.simps isspace_def whitespace_def)

lemma install_only_parsed:
  "parse_dockerfile install_only_dockerfile = Inr install_only_instructions"
  by (simp add: sample_defs parse_dockerfile_def parse_line_def str_defs)

text \<open>
  Claim C4, as stated, fails. \<open>installer_only_dockerfile\<close> has
  \<open>FROM python:3.11-slim\<close> first, declares the eight keys, has the \<open>RUN\<close> line that
  installs Poetry, the \<open>COPY\<close> of both manifest files, the \<open>HEALTHCHECK\<close> with the
  three options and the three labels; still \<open>check_dependencies_installation\<close>
  reports an error, because no \<open>RUN\<close> instruction holds \<open>poetry install\<close>. With
  the \<open>RUN\<close> line \<open>poetry install\<close> in its place, \<open>install_only_dockerfile\<close>,
  it is \<open>check_poetry_installation\<close> that reports an error. The checks ask
  for both commands.
\<close>

theorem one_poetry_run_line_counterexample:
  "parse_dockerfile installer_only_dockerfile = Inr installer_only_instructions
   \<and> dockerfile_checks env_order_literal label_order_literal installer_only_instructions
       = Inr [''Must install dependencies using poetry install'']
   \<and> main_status env_order_literal label_order_literal installer_only_dockerfile = 1
   \<and> parse_dockerfile install_only_dockerfile = Inr install_only_instructions
   \<and> dockerfile_checks env_order_literal label_order_literal install_only_instructions
       = Inr [''Poetry installation command not found'']
   \<and> main_status env_order_literal label_order_literal install_only_dockerfile = 1"
proof -
  have 1: "dockerfile_checks env_order_literal label_order_literal installer_only_instructions
       = Inr [''Must install dependencies using poetry install'']"
    by (simp add: check_defs str_defs sample_defs)
  have 2: "dockerfile_checks env_order_literal label_order_literal install_only_instructions
       = Inr [''Poetry installation command not found'']"
    by (simp add: check_defs str_defs sample_defs)
  show ?thesis
    by (simp add: 1 2 installer_only_parsed install_only_parsed main_status_def)
qed

text \<open>
  Claim C4, amended. Let a Dockerfile text parse to a list of instructions in
  which: the first instruction is \<open>FROM python:3.11-slim\<close>; each of the eight
  required keys is declared by an \<open>ENV\<close> instruction in the form \<open>KEY=VALUE\<close>, or
  \<open>KEY VALUE\<close> with no \<open>=\<close> in the value; a \<open>RUN\<close> instruction holds the Poetry
  installer command and a \<open>RUN\<close> instruction holds \<open>poetry install\<close>; a \<open>COPY\<close>
  instruction names both \<open>pyproject.toml\<close> and \<open>poetry.lock\<close>; the first
  \<open>HEALTHCHECK\<close> instruction holds \<open>--interval\<close>, \<open>--timeout\<close> and \<open>--retries\<close>;
  and for each of the three required labels some \<open>LABEL\<close> instruction has a
  token that begins with the label and \<open>=\<close>. Then the six checks return without
  raising and report no error, in whatever order the two sets are iterated,
  and \<open>main\<close> exits with status 0.
\<close>

theorem dockerfile_checks_conformant:
  assumes parse: "parse_dockerfile content = Inr instrs"
    and eo: "iteration_of required_env_vars env_order"
    and lo: "iteration_of required_labels label_order"
    and "from": "\<exists>rest. instrs = (''FROM'', ''python:3.11-slim'') # rest"
    and env: "\<forall>k\<in>required_env_vars. \<exists>(i, a)\<in>set instrs. i = ''ENV'' \<and> env_declares a k"
    and installer: "\<exists>(i, a)\<in>set instrs.
                      i = ''RUN'' \<and> py_in ''curl -sSL https://install.python-poetry.org'' a"
    and install: "\<exists>(i, a)\<in>set instrs. i = ''RUN'' \<and> py_in ''poetry install'' a"
    and copy: "\<exists>(i, a)\<in>set instrs.
                 i = ''COPY'' \<and> py_in ''pyproject.toml'' a \<and> py_in ''poetry.lock'' a"
    and health: "\<exists>a. find (\<lambda>(i, a). i = ''HEALTHCHECK'') instrs = Some (''HEALTHCHECK'', a) \<and>
                   py_in ''--interval'' a \<and> py_in ''--timeout'' a \<and> py_in ''--retries'' a"
    and labels: "\<forall>l\<in>required_labels. \<exists>(i, a)\<in>set instrs. i = ''LABEL'' \<and>
                   (\<exists>tok\<in>set (py_split a). startswith tok (l @ ''=''))"
  shows "dockerfile_checks env_order label_order instrs = Inr [] \<and>
         main_status env_order label_order content = 0"
proof -
  have 1: "check_base_image instrs = []"
    using "from" by (auto simp: check_base_image_def startswith_def)
  have 2: "check_environment_variables env_order instrs = Inr []"
    using parse_dockerfile_nonblank [OF parse] eo env
    by (rule check_environment_variables_none_missing)
  have 3: "check_poetry_installation instrs = []"
    using installer by (simp add: check_poetry_installation_def poetry_installation_loop_iff)
  have 4: "check_dependencies_installation instrs = []"
    using install copy by (simp add: check_dependencies_installation_def dependencies_flags_eq)
  have 5: "check_healthcheck instrs = []"
    using health by (auto simp: check_healthcheck_def healthcheck_loop_find)
  have 6: "check_labels label_order instrs = []"
    using lo labels by (rule check_labels_none_missing)
  have "dockerfile_checks env_order label_order instrs = Inr []"
    by (simp add: dockerfile_checks_def 1 2 3 4 5 6)
  then show ?thesis using parse by (simp add: main_status_def)
qed


theorem dockerfile_checks_conformant_witness:
  "dockerfile_checks env_order_literal label_order_literal conformant_instructions = Inr []
   \<and> main_status env_order_literal label_order_literal conformant_dockerfile = 0"
proof -
  let ?instrs = conformant_instructions
  have eo: "iteration_of required_env_vars env_order_literal"
    by (simp add: iteration_of_def required_env_vars_def env_order_literal_def)
  have lo: "iteration_of required_labels label_order_literal"
    by (simp add: iteration_of_def required_labels_def label_order_literal_def)
  have "from": "\<exists>rest. ?instrs = (''FROM'', ''python:3.11-slim'') # rest"
    by (simp add: sample_defs)
  have env: "\<forall>k\<in>required_env_vars. \<exists>(i, a)\<in>set ?instrs. i = ''ENV'' \<and> env_declares a k"
    by (simp add: sample_defs required_env_vars_def env_declares_def startswith_def)
  have installer: "\<exists>(i, a)\<in>set ?instrs.
                      i = ''RUN'' \<and> py_in ''curl -sSL https://install.python-poetry.org'' a"
    by (simp add: sample_defs)
  have install: "\<exists>(i, a)\<in>set ?instrs. i = ''RUN'' \<and> py_in ''poetry install'' a"
    by (simp add: sample_defs)
  have copy: "\<exists>(i, a)\<in>set ?instrs.
                 i = ''COPY'' \<and> py_in ''pyproject.toml'' a \<and> py_in ''poetry.lock'' a"
    by (simp add: sample_defs)
  have health: "\<exists>a. find (\<lambda>(i, a). i = ''HEALTHCHECK'') ?instrs = Some (''HEALTHCHECK'', a) \<and>
                   py_in ''--interval'' a \<and> py_in ''--timeout'' a \<and> py_in ''--retries'' a"
    by (simp add: sample_defs)
  have labels: "\<forall>l\<in>required_labels. \<exists>(i, a)\<in>set ?instrs. i = ''LABEL'' \<and>
                   (\<exists>tok\<in>set (py_split a). startswith tok (l @ ''=''))"
    by (simp add: sample_defs required_labels_def label_tokens startswith_def)
  show ?thesis
    by (rule dockerfile_checks_conformant
          [OF conformant_parsed eo lo "from" env installer install copy health labels])
qed

text \<open>One error for each required key that no \<open>ENV\<close> instruction yields, in any order.\<close>

lemma check_environment_variables_missing:
  assumes "iteration_of required_env_vars order"
    and "found_env_vars {} instrs = Inr found"
  shows "\<exists>errors. check_environment_variables order instrs = Inr errors
           \<and> distinct errors
           \<and> set errors = (\<lambda>var. ''Missing required environment variable: '' @ var) `
                            (required_env_vars - found)"
  using assms
  by (auto simp: check_environment_variables_def iteration_of_def distinct_map inj_on_def)

text \<open>
  Claim C5. \<open>check_environment_variables\<close> does not always take the first
  whitespace- or \<open>=\<close>-delimited token as the key. When the argument holds \<open>=\<close>
  anywhere, the key is everything before the first \<open>=\<close>; so for
  \<open>ENV PYSETUP_PATH /opt/py=setup\<close>, in the form \<open>ENV KEY VALUE\<close>, the key read is
  \<open>PYSETUP_PATH /opt/py\<close>, and \<open>PYSETUP_PATH\<close> is reported missing although an
  \<open>ENV\<close> instruction declares it.
\<close>

theorem env_value_with_equals_missed:
  "env_key ''PYSETUP_PATH /opt/py=setup'' = Inr ''PYSETUP_PATH /opt/py''
   \<and> check_environment_variables env_order_literal env_with_equals =
       Inr [''Missing required environment variable: PYSETUP_PATH'']"
  by (simp add: check_defs str_defs env_with_equals_def)

section \<open>Properties of the compose validator\<close>

lemmas lower_defs = py_lower_def lower_char_def upper_letters_def lower_letters_def

lemmas compose_defs =
  validate_compose_service_def build_errors_def context_errors_def args_errors_def
  volumes_errors_def environment_errors_def python_path_found_def is_poetry_volume_def

lemma lower_char_idem: "lower_char (lower_char c) = lower_char c"
  by (simp add: lower_char_def upper_letters_def lower_letters_def)

lemma py_lower_idem: "py_lower (py_lower s) = py_lower s"
  by (simp add: py_lower_def lower_char_idem)

lemma is_python_service_case: "is_python_service (py_lower name) = is_python_service name"
  by (simp add: is_python_service_def py_lower_idem)

lemma worker_api_is_python_service: "is_python_service ''worker-api''"
  by (simp add: is_python_service_def python_service_indicators_def lower_defs)

text \<open>
  Claim C6, as stated, fails. The service \<open>worker-api\<close> classifies as a Python
  service, and its entry, which has a \<open>build\<close> key only, has no \<open>PYTHONPATH\<close>
  anywhere; \<open>validate_compose_service\<close> reports nothing, because it looks for
  \<open>PYTHONPATH\<close> only under an \<open>environment\<close> key.
\<close>

theorem worker_api_build_only_counterexample:
  "is_python_service ''worker-api''
   \<and> map_of worker_api_build_only ''environment'' = None
   \<and> validate_compose_service ''worker-api'' worker_api_build_only = Inr []"
  by (simp add: worker_api_is_python_service compose_defs worker_api_build_only_def)

text \<open>
  Claim C6, amended. The classification is a substring match on the lower-cased
  name, so it does not depend on the case of the name: \<open>worker-api\<close> and
  \<open>Worker-API\<close> classify as Python services, \<open>gateway\<close> does not. For every service that classifies as a Python service, whose entry
  has an \<open>environment\<close> key under which \<open>PYTHONPATH\<close> is not found (no string of
  the list contains it, or the mapping has no such key, or the value is neither
  a list nor a mapping), and whose \<open>dockerfile\<close> entry, if any, is a string,
  \<open>validate_compose_service\<close> returns a list of findings that holds the one
  naming the missing \<open>PYTHONPATH\<close>.
\<close>

theorem validate_compose_service_pythonpath:
  "is_python_service ''worker-api'' \<and> is_python_service ''Worker-API'' \<and>
   \<not> is_python_service ''gateway'' \<and>
   is_python_service (py_lower service_name) = is_python_service service_name \<and>
   (is_python_service service_name \<longrightarrow>
    map_of service_config ''environment'' = Some env_vars \<longrightarrow>
    \<not> python_path_found env_vars \<longrightarrow>
    dockerfile_is_text service_config \<longrightarrow>
    (\<exists>errors. validate_compose_service service_name service_config = Inr errors \<and>
       ''Python service '' @ service_name @ '' should define PYTHONPATH environment variable''
         \<in> set errors))"
proof -
  have names: "is_python_service ''worker-api'' \<and> is_python_service ''Worker-API'' \<and>
     \<not> is_python_service ''gateway''"
    by (simp add: is_python_service_def python_service_indicators_def lower_defs)
  have returns: "\<exists>errors. build_errors service_name service_config = Inr errors"
    if "dockerfile_is_text service_config"
    using that
    by (auto simp: build_errors_def context_errors_def dockerfile_is_text_def Let_def
        split: option.splits yaml.splits)
  show ?thesis using names returns is_python_service_case [of service_name]
    by (auto simp: validate_compose_service_def environment_errors_def)
qed

theorem validate_compose_service_pythonpath_witness:
  "\<exists>errors. validate_compose_service ''worker-api'' worker_api_with_environment = Inr errors \<and>
     ''Python service worker-api should define PYTHONPATH environment variable'' \<in> set errors"
proof -
  have 1: "map_of worker_api_with_environment ''environment'' = Some (YList [YStr ''LOG_LEVEL=debug''])"
    by (simp add: worker_api_with_environment_def)
  have 2: "\<not> python_path_found (YList [YStr ''LOG_LEVEL=debug''])"
    by (simp add: python_path_found_def)
  have 3: "dockerfile_is_text worker_api_with_environment"
    by (simp add: dockerfile_is_text_def worker_api_with_environment_def)
  show ?thesis
    using validate_compose_service_pythonpath
      [of "''worker-api''" worker_api_with_environment "YList [YStr ''LOG_LEVEL=debug'']"]
      worker_api_is_python_service 1 2 3
    by simp
qed

section \<open>Properties of the import and package checks\<close>

lemma mset_walk_queue: "mset (walk_queue q) = mset (concat (map preorder q))"
  by (induction q rule: walk_queue.induct) (simp_all add: ac_simps)

lemma mset_walk: "mset (walk tree) = mset (preorder tree)"
  by (simp add: walk_def mset_walk_queue)

lemma set_walk: "set (walk tree) = set (preorder tree)"
  using mset_walk [of tree] by (metis set_mset_mset)

lemma filter_walk_single:
  assumes "filter P (preorder tree) = [n]"
  shows "filter P (walk tree) = [n]"
proof -
  have "mset (filter P (walk tree)) = mset (filter P (preorder tree))"
    by (simp add: mset_walk)
  also have "\<dots> = {#n#}" by (simp only: assms mset.simps)
  finally show ?thesis by (simp only: mset_single_iff)
qed

text \<open>A finding is a relative-import finding when it begins with the words of that message.\<close>

lemma relative_findings_of_node:
  "filter (\<lambda>e. startswith e ''Relative import found in '') (import_error py_file n) =
     (if is_relative_import n then import_error py_file n else [])"
  by (cases n) (auto simp: import_error_def is_relative_import_def startswith_def split: option.splits)

lemma relative_findings_of_nodes:
  "filter (\<lambda>e. startswith e ''Relative import found in '')
     (concat (map (import_error py_file) ns)) =
   concat (map (import_error py_file) (filter is_relative_import ns))"
  by (induction ns) (simp_all add: relative_findings_of_node)

text \<open>
  Claim C7, amended. Take a Python file that can be read and parsed and whose
  tree holds exactly one relative import statement. Among the findings of
  \<open>validate_imports\<close> exactly one is a relative-import finding; it names the file
  and the dots and module of the import. It does not give the line of the
  import.
\<close>

theorem validate_imports_one_relative:
  assumes "read_text base root py_file = Inr content"
    and "ast_parse content = Parsed tree"
    and "filter is_relative_import (preorder tree) = [ImportFrom module level lineno]"
  shows "filter (\<lambda>e. startswith e ''Relative import found in '')
           (validate_imports ast_parse base root py_file) =
         [''Relative import found in '' @ str_path (base @ py_file) @ '': from '' @
          replicate level CHR ''.'' @ (case module of None \<Rightarrow> [] | Some m \<Rightarrow> m) @ '' import ...'']"
proof -
  have rel: "filter is_relative_import (walk tree) = [ImportFrom module level lineno]"
    using assms(3) by (rule filter_walk_single)
  then have "ImportFrom module level lineno \<in> set (filter is_relative_import (walk tree))"
    by simp
  then have pos: "level > 0" by (simp add: is_relative_import_def)
  have "validate_imports ast_parse base root py_file =
          concat (map (import_error (str_path (base @ py_file))) (walk tree))"
    using assms(1,2) by (simp add: validate_imports_def import_tree_errors_def)
  then show ?thesis
    using pos by (simp add: relative_findings_of_nodes rel import_error_def)
qed

lemmas fs_defs = read_text_def str_path_def sample_base_def sample_root_def
  unformatted_source_def formatted_source_def relative_import_source_def
  init_with_import_def init_with_all_def init_with_nested_all_def unlines_def newline_def

theorem validate_imports_one_relative_witness:
  "filter (\<lambda>e. startswith e ''Relative import found in '')
     (validate_imports sample_parse sample_base sample_root [''src'', ''svc'', ''util.py'']) =
   [''Relative import found in containers/svc/src/svc/util.py: from . import ...'']"
proof -
  have 1: "read_text sample_base sample_root [''src'', ''svc'', ''util.py''] = Inr relative_import_source"
    by (simp add: read_text_def sample_root_def)
  have 2: "sample_parse relative_import_source = Parsed (Module [ImportFrom None 1 1])"
    by (simp add: sample_parse_def fs_defs)
  have 3: "filter is_relative_import (preorder (Module [ImportFrom None 1 1])) = [ImportFrom None 1 1]"
    by (simp add: is_relative_import_def)
  show ?thesis
    using validate_imports_one_relative
      [of sample_base sample_root "[''src'', ''svc'', ''util.py'']" relative_import_source
          sample_parse "Module [ImportFrom None 1 1]" None 1 1] 1 2 3
    by (simp add: str_path_def sample_base_def)
qed

text \<open>
  Claim C7, as stated, fails. The finding for the relative import is the same
  text whether the import stands on line 1 or on line 7 of the file, and the
  text holds no line number.
\<close>

theorem relative_import_line_counterexample:
  "import_tree_errors ''src/svc/util.py'' (Module [ImportFrom None 1 1]) =
     [''Relative import found in src/svc/util.py: from . import ...'']
   \<and> import_tree_errors ''src/svc/util.py'' (Module [Other [], ImportFrom None 1 7]) =
     [''Relative import found in src/svc/util.py: from . import ...'']
   \<and> \<not> py_in ''7'' ''Relative import found in src/svc/util.py: from . import ...''"
  by (simp add: import_tree_errors_def walk_def import_error_def)

text \<open>
  Claim C8, amended. For an \<open>__init__\<close> module that can be read and parsed,
  \<open>validate_init_file\<close> reports the missing \<open>__all__\<close>, once, if and only if the
  tree holds an import-from statement at any depth and no assignment at any
  depth, top-level or nested, that has a plain name \<open>__all__\<close> among its targets.
  With such an assignment at top level there is no finding.
\<close>

theorem validate_init_file_all:
  assumes "read_text base root init_file = Inr content"
    and "ast_parse content = Parsed tree"
  shows "validate_init_file ast_parse base root init_file =
           (if (\<exists>n\<in>set (preorder tree). is_import_from n)
               \<and> \<not> (\<exists>n\<in>set (preorder tree). is_all_assign n)
            then [''Missing __all__ definition in '' @ str_path (base @ init_file) @
                  '' when it contains imports'']
            else [])
         \<and> (top_level_all tree \<longrightarrow> validate_init_file ast_parse base root init_file = [])"
proof -
  have top: "\<exists>n\<in>set (preorder tree). is_all_assign n" if "top_level_all tree"
  proof -
    from that obtain body n where t: "tree = Module body" and n: "n \<in> set body" "is_all_assign n"
      by (auto simp: top_level_all_def split: node.splits)
    have "n \<in> set (preorder n)" by (cases n) simp_all
    with n t show ?thesis by auto
  qed
  show ?thesis
    using assms top
    by (auto simp: validate_init_file_def init_tree_errors_def set_walk Let_def)
qed

theorem validate_init_file_all_witness:
  "validate_init_file sample_parse sample_base sample_root [''src'', ''svc'', ''__init__.py''] =
     [''Missing __all__ definition in containers/svc/src/svc/__init__.py when it contains imports'']
   \<and> validate_init_file sample_parse sample_base
        (Dir [(''__init__.py'', File init_with_all)]) [''__init__.py''] = []"
proof -
  have 1: "read_text sample_base sample_root [''src'', ''svc'', ''__init__.py''] = Inr init_with_import"
    by (simp add: read_text_def sample_root_def)
  have 2: "sample_parse init_with_import = Parsed (Module [ImportFrom (Some ''svc.core'') 0 1])"
    by (simp add: sample_parse_def)
  have 3: "read_text sample_base (Dir [(''__init__.py'', File init_with_all)]) [''__init__.py'']
             = Inr init_with_all"
    by (simp add: read_text_def)
  have 4: "sample_parse init_with_all =
             Parsed (Module [ImportFrom (Some ''svc.core'') 0 1, Assign [Name ''__all__'']])"
    by (simp add: sample_parse_def fs_defs)
  have 5: "top_level_all (Module [ImportFrom (Some ''svc.core'') 0 1, Assign [Name ''__all__'']])"
    by (simp add: top_level_all_def is_all_assign_def)
  show ?thesis
    using validate_init_file_all
        [of sample_base sample_root "[''src'', ''svc'', ''__init__.py'']" init_with_import
            sample_parse "Module [ImportFrom (Some ''svc.core'') 0 1]"]
      validate_init_file_all
        [of sample_base "Dir [(''__init__.py'', File init_with_all)]" "[''__init__.py'']"
            init_with_all sample_parse
            "Module [ImportFrom (Some ''svc.core'') 0 1, Assign [Name ''__all__'']]"]
      1 2 3 4 5
    by (simp add: is_import_from_def is_all_assign_def str_path_def sample_base_def)
qed

text \<open>
  Claim C8, as stated, fails. The module \<open>init_with_nested_all\<close> has an
  import-from statement and no top-level assignment to \<open>__all__\<close>, only one
  nested in an \<open>if\<close> statement; \<open>validate_init_file\<close> reports nothing, because
  \<open>ast.walk\<close> reaches the nested assignment.
\<close>

theorem nested_all_counterexample:
  "sample_parse init_with_nested_all =
     Parsed (Module [ImportFrom (Some ''svc.core'') 0 1, Other [Assign [Name ''__all__'']]])
   \<and> \<not> top_level_all (Module [ImportFrom (Some ''svc.core'') 0 1, Other [Assign [Name ''__all__'']]])
   \<and> validate_init_file sample_parse sample_base
        (Dir [(''__init__.py'', File init_with_nested_all)]) [''__init__.py''] = []"
  by (simp add: sample_parse_def fs_defs top_level_all_def is_all_assign_def is_import_from_def
      validate_init_file_def init_tree_errors_def walk_def)

section \<open>Properties of the standards checker\<close>

lemma check_container_raises:
  "poetry_errors r \<Longrightarrow> \<exists>printed. check_container st r = Inl (printed, TypeError)"
  by (cases st) (simp add: check_container_def Let_def split: prod.splits)

lemma check_container_returns:
  assumes "\<not> poetry_errors r"
  shows "\<exists>printed'. check_container (all_valid, printed) r =
           Inr (all_valid \<and> structure_errors r = [] \<and>
                (\<forall>es ws. dockerfile_result r = Some (es, ws) \<longrightarrow> es = []),
                printed @ printed')
         \<and> (\<forall>line\<in>set printed'. \<not> startswith line ''Poetry configuration errors in '')"
  using assms
  by (cases "dockerfile_result r")
     (auto simp: check_container_def Let_def startswith_def bullet_lines_def warning_lines_def
           split: prod.splits)

lemma check_container_dirs_raises:
  "\<exists>r\<in>set reports. poetry_errors r \<Longrightarrow>
   \<exists>printed. check_container_dirs st reports = Inl (printed, TypeError)"
proof (induction reports arbitrary: st)
  case Nil
  then show ?case by simp
next
  case (Cons r reports)
  show ?case
  proof (cases "poetry_errors r")
    case True
    from check_container_raises [OF True, of st] show ?thesis by auto
  next
    case False
    obtain v p where st: "st = (v, p)" by (cases st)
    from check_container_returns [OF False, of v p] obtain st' where
      "check_container st r = Inr st'" using st by auto
    moreover have "\<exists>printed. check_container_dirs st' reports = Inl (printed, TypeError)"
      using Cons.prems False by (intro Cons.IH) auto
    ultimately show ?thesis by auto
  qed
qed

lemma check_container_dirs_returns:
  assumes "\<forall>r\<in>set reports. \<not> poetry_errors r"
    and "\<forall>line\<in>set printed. \<not> startswith line ''Poetry configuration errors in ''"
  shows "\<exists>printed'. check_container_dirs (all_valid, printed) reports =
           Inr (all_valid \<and> (\<forall>r\<in>set reports. structure_errors r = [] \<and>
                  (\<forall>es ws. dockerfile_result r = Some (es, ws) \<longrightarrow> es = [])),
                printed')
         \<and> (\<forall>line\<in>set printed'. \<not> startswith line ''Poetry configuration errors in '')"
  using assms
proof (induction reports arbitrary: all_valid printed)
  case Nil
  then show ?case by simp
next
  case (Cons r reports)
  let ?ok = "structure_errors r = [] \<and> (\<forall>es ws. dockerfile_result r = Some (es, ws) \<longrightarrow> es = [])"
  from Cons.prems(1) have r: "\<not> poetry_errors r" by simp
  from check_container_returns [OF r, of all_valid printed] obtain p1 where
    step: "check_container (all_valid, printed) r = Inr (all_valid \<and> ?ok, printed @ p1)"
    and p1: "\<forall>line\<in>set p1. \<not> startswith line ''Poetry configuration errors in ''"
    by blast
  have "\<forall>line\<in>set (printed @ p1). \<not> startswith line ''Poetry configuration errors in ''"
    using Cons.prems(2) p1 by auto
  with Cons.prems(1) Cons.IH [of "printed @ p1" "all_valid \<and> ?ok"] obtain p2 where
    rest: "check_container_dirs (all_valid \<and> ?ok, printed @ p1) reports =
             Inr ((all_valid \<and> ?ok) \<and> (\<forall>r\<in>set reports. structure_errors r = [] \<and>
                  (\<forall>es ws. dockerfile_result r = Some (es, ws) \<longrightarrow> es = [])), p2)"
    and p2: "\<forall>line\<in>set p2. \<not> startswith line ''Poetry configuration errors in ''"
    by auto
  have "check_container_dirs (all_valid, printed) (r # reports) =
          Inr (all_valid \<and> (\<forall>r\<in>set (r # reports). structure_errors r = [] \<and>
                  (\<forall>es ws. dockerfile_result r = Some (es, ws) \<longrightarrow> es = [])), p2)"
    using step rest by (simp add: conj_assoc)
  with p2 show ?case by blast
qed

text \<open>
  Claim C10. \<open>check_containers\<close> uses the boolean of \<open>validate_poetry_config\<close> as
  if it were a list of errors. As soon as the configuration of one container
  directory is valid (the boolean is \<open>True\<close>), the run raises \<open>TypeError\<close>. When
  the boolean is \<open>False\<close> for every directory, the run returns; its result is
  decided by the structure, Dockerfile and compose errors alone, and no line
  on Poetry is printed.
\<close>

theorem check_containers_poetry_boolean:
  "((\<exists>r\<in>set reports. poetry_errors r) \<longrightarrow>
      (\<exists>printed. check_containers reports compose_errors = Inl (printed, TypeError)))
   \<and> ((\<forall>r\<in>set reports. \<not> poetry_errors r) \<longrightarrow>
      (\<exists>printed. check_containers reports compose_errors =
          Inr ((\<forall>r\<in>set reports. structure_errors r = [] \<and>
                  (\<forall>es ws. dockerfile_result r = Some (es, ws) \<longrightarrow> es = []))
               \<and> (\<forall>es. compose_errors = Some es \<longrightarrow> es = []), printed)
        \<and> (\<forall>line\<in>set printed. \<not> startswith line ''Poetry configuration errors in '')))"
proof (intro conjI impI)
  assume "\<exists>r\<in>set reports. poetry_errors r"
  from check_container_dirs_raises [OF this, of "(True, [''Validating containers...''])"]
  show "\<exists>printed. check_containers reports compose_errors = Inl (printed, TypeError)"
    by (auto simp: check_containers_def)
next
  assume a: "\<forall>r\<in>set reports. \<not> poetry_errors r"
  have "\<forall>line\<in>set [''Validating containers...''].
          \<not> startswith line ''Poetry configuration errors in ''"
    by (simp add: startswith_def)
  from check_container_dirs_returns [OF a this, of True] obtain p where
    dirs: "check_container_dirs (True, [''Validating containers...'']) reports =
             Inr (\<forall>r\<in>set reports. structure_errors r = [] \<and>
                  (\<forall>es ws. dockerfile_result r = Some (es, ws) \<longrightarrow> es = []), p)"
    and p: "\<forall>line\<in>set p. \<not> startswith line ''Poetry configuration errors in ''"
    by auto
  show "\<exists>printed. check_containers reports compose_errors =
          Inr ((\<forall>r\<in>set reports. structure_errors r = [] \<and>
                  (\<forall>es ws. dockerfile_result r = Some (es, ws) \<longrightarrow> es = []))
               \<and> (\<forall>es. compose_errors = Some es \<longrightarrow> es = []), printed)
        \<and> (\<forall>line\<in>set printed. \<not> startswith line ''Poetry configuration errors in '')"
  proof (cases compose_errors)
    case None
    then show ?thesis using dirs p by (auto simp: check_containers_def)
  next
    case (Some es)
    then show ?thesis using dirs p
      by (cases "es = []") (auto simp: check_containers_def startswith_def bullet_lines_def)
  qed
qed

lemmas container_defs =
  report_of_def validate_container_structure_def structure_checks_def has_python_code_def
  validate_poetry_configuration_def is_utility_container_def path_name_def EXCLUDED_DIRS_def
  exists_def is_dir_def py_pattern_def str_path_def

lemmas poetry_defs =
  validate_poetry_config_def REQUIRED_SECTIONS_def REQUIRED_FIELDS_def get_or_empty_def key_in_def
  sample_tomli_load_def

lemma monitor_reports:
  "sample_report monitor_with_pyproject =
     \<lparr>container_dir = ''containers/resource_monitor'', structure_errors = [],
      poetry_errors = True, dockerfile_result = None\<rparr>"
  "sample_report monitor_empty =
     \<lparr>container_dir = ''containers/resource_monitor'', structure_errors = [],
      poetry_errors = False, dockerfile_result = None\<rparr>"
  by (simp_all add: sample_report_def monitor_with_pyproject_def monitor_empty_def
      container_defs poetry_defs)

theorem check_containers_poetry_boolean_witness:
  "(\<exists>printed. check_containers [sample_report monitor_with_pyproject] None =
      Inl (printed, TypeError))
   \<and> (\<exists>printed. check_containers [sample_report monitor_empty] None = Inr (True, printed))"
  using check_containers_poetry_boolean [of "[sample_report monitor_with_pyproject]" None]
    check_containers_poetry_boolean [of "[sample_report monitor_empty]" None]
  by (auto simp: monitor_reports)

text \<open>
  Claim C3. A run of \<open>check_containers\<close> with no finding at all does not pass
  when a container has a valid Poetry configuration. The directory
  \<open>monitor_with_pyproject\<close> has no structure error and no Dockerfile to check;
  the run over it raises \<open>TypeError\<close> and the script exits with status 1.
\<close>

theorem check_containers_valid_poetry_raises:
  "structure_errors (sample_report monitor_with_pyproject) = []
   \<and> dockerfile_result (sample_report monitor_with_pyproject) = None
   \<and> check_containers [sample_report monitor_with_pyproject] None =
       Inl ([''Validating containers...'',
             ''Poetry configuration errors in containers/resource_monitor:''], TypeError)
   \<and> check_standards_status (check_containers [sample_report monitor_with_pyproject] None) = 1"
  by (simp add: monitor_reports check_containers_def check_container_def check_standards_status_def)

text \<open>\<open>main\<close> of \<open>dockerfile_validator.py\<close> fails on errors only, whatever the warnings.\<close>

lemma dockerfile_validator_status_iff:
  "dockerfile_validator_status (errors, warnings) = 0 \<longleftrightarrow> errors = []"
  by (simp add: dockerfile_validator_status_def)

section \<open>The effect of the container validator on the directory\<close>

lemma map_of_write_entry:
  "map_of (write_entry p f es) q = (if q = p then map_option f (map_of es p) else map_of es q)"
  by (induction es) auto

lemma write_entry_same:
  "(\<And>n. map_of es p = Some n \<Longrightarrow> f n = n) \<Longrightarrow> write_entry p f es = es"
  by (induction es) auto

lemma write_text_File: "write_text (File s) (x # xs) t = File s"
  by simp

lemma write_text_Dir: "\<exists>es'. write_text (Dir es) p t = Dir es'"
  by (cases p) simp_all

lemma lookup_write_text:
  "lookup (write_text r p t) q =
     map_option (\<lambda>n. if prefix q p then write_text n (drop (length q) p) t else n) (lookup r q)"
proof (induction q arbitrary: r p)
  case Nil
  show ?case by simp
next
  case (Cons a qs)
  note IH = Cons.IH
  show ?case
  proof (cases r)
    case (File s)
    then show ?thesis by (cases p) simp_all
  next
    case (Dir es)
    show ?thesis
    proof (cases p)
      case Nil
      show ?thesis unfolding Dir Nil by (simp add: option.map_ident split: option.splits)
    next
      case p: (Cons b ps)
      show ?thesis
      proof (cases "a = b")
        case True
        show ?thesis
        proof (cases "map_of es b")
          case None
          show ?thesis unfolding Dir p True by (simp add: map_of_write_entry None)
        next
          case (Some n)
          show ?thesis unfolding Dir p True by (simp add: map_of_write_entry Some IH cong: if_cong)
        qed
      next
        case False
        show ?thesis unfolding Dir p using False
          by (simp add: map_of_write_entry option.map_ident split: option.splits)
      qed
    qed
  qed
qed

lemma file_text_write_text:
  assumes "lookup r p = Some (File s0)"
  shows "file_text (write_text r p t) q = (if q = p then Some t else file_text r q)"
proof (cases "q = p")
  case True
  with assms show ?thesis by (simp add: file_text_def lookup_write_text)
next
  case False
  show ?thesis
  proof (cases "lookup r q")
    case None
    with False show ?thesis by (simp add: file_text_def lookup_write_text)
  next
    case (Some n)
    show ?thesis
    proof (cases "prefix q p")
      case True
      with False have "drop (length q) p \<noteq> []" by (auto simp: prefix_def)
      then obtain x xs where d: "drop (length q) p = x # xs" by (cases "drop (length q) p") auto
      show ?thesis
      proof (cases n)
        case (File s)
        with Some True False d show ?thesis by (simp add: file_text_def lookup_write_text)
      next
        case (Dir es)
        with Some True False d show ?thesis by (simp add: file_text_def lookup_write_text)
      qed
    next
      case np: False
      with Some False show ?thesis by (simp add: file_text_def lookup_write_text)
    qed
  qed
qed

lemma exists_write_text: "exists (write_text r p t) q = exists r q"
  by (simp add: exists_def lookup_write_text)

lemma is_dir_write_text: "is_dir (write_text r p t) q = is_dir r q"
proof (cases "lookup r q")
  case None
  then show ?thesis by (simp add: is_dir_def lookup_write_text)
next
  case (Some n)
  show ?thesis
  proof (cases n)
    case (File s)
    with Some show ?thesis
      by (cases "drop (length q) p") (simp_all add: is_dir_def lookup_write_text)
  next
    case (Dir es)
    with Some write_text_Dir [of es "drop (length q) p" t] show ?thesis
      by (auto simp: is_dir_def lookup_write_text)
  qed
qed

lemma write_text_same: "lookup r p = Some (File t) \<Longrightarrow> write_text r p t = r"
proof (induction p arbitrary: r)
  case Nil
  then show ?case by simp
next
  case (Cons b ps)
  note IH = Cons.IH and prems = Cons.prems
  show ?case
  proof (cases r)
    case (File s)
    then show ?thesis by simp
  next
    case (Dir es)
    have "write_entry b (\<lambda>n. write_text n ps t) es = es"
    proof (rule write_entry_same)
      fix n assume "map_of es b = Some n"
      with prems Dir have "lookup n ps = Some (File t)" by simp
      then show "write_text n ps t = n" by (rule IH)
    qed
    with Dir show ?thesis by simp
  qed
qed

lemma rglob_write_entry:
  assumes "\<And>n pre. rglob P pre (f n) = rglob P pre n"
  shows "map (\<lambda>(name, n). pre @ [name]) (filter (\<lambda>(name, n). P name) (write_entry p f es)) =
         map (\<lambda>(name, n). pre @ [name]) (filter (\<lambda>(name, n). P name) es)
       \<and> concat (map (\<lambda>(name, n). rglob P (pre @ [name]) n) (write_entry p f es)) =
         concat (map (\<lambda>(name, n). rglob P (pre @ [name]) n) es)"
  by (induction es) (auto simp: assms)

lemma rglob_write_text: "rglob P pre (write_text r p t) = rglob P pre r"
proof (induction p arbitrary: r pre)
  case Nil
  show ?case by (cases r) simp_all
next
  case (Cons b ps)
  note IH = Cons.IH
  show ?case
  proof (cases r)
    case (File s)
    then show ?thesis by simp
  next
    case (Dir es)
    from rglob_write_entry [of P "\<lambda>n. write_text n ps t" pre b es] IH
    show ?thesis unfolding Dir by simp
  qed
qed

lemma same_shape_refl: "same_shape r r"
  by (simp add: same_shape_def)

lemma same_shape_trans: "same_shape r r1 \<Longrightarrow> same_shape r1 r2 \<Longrightarrow> same_shape r r2"
  by (simp add: same_shape_def)

lemma same_shape_write_text: "same_shape r (write_text r p t)"
  by (simp add: same_shape_def exists_write_text is_dir_write_text rglob_write_text)

lemma read_text_file_text:
  "read_text base r q =
     (case file_text r q of
        Some s \<Rightarrow> Inr s
      | None \<Rightarrow>
          if is_dir r q
          then Inl (''[Errno 21] Is a directory: '' @ [CHR 0x27] @ str_path (base @ q) @ [CHR 0x27])
          else Inl (''[Errno 2] No such file or directory: '' @ [CHR 0x27] @ str_path (base @ q) @
                    [CHR 0x27]))"
  by (simp add: read_text_def file_text_def is_dir_def split: option.splits fsnode.splits)

text \<open>One turn of the loop.\<close>

lemma format_file_step:
  "\<exists>r'. format_file fmt base (E0, r) p = (E0 @ turn_errors fmt base r p, r')
        \<and> same_shape r r'
        \<and> (\<forall>q. file_text r' q = (if q = p then text_after fmt base r p else file_text r q))"
proof (cases "should_skip_directory (base @ butlast p)")
  case True
  then show ?thesis
    by (auto simp: format_file_def turn_errors_def text_after_def same_shape_refl
        split: option.splits)
next
  case False
  show ?thesis
  proof (cases "file_text r p")
    case None
    then have "\<exists>e. read_text base r p = Inl e" by (simp add: read_text_file_text)
    then show ?thesis using False None
      by (auto simp: format_file_def turn_errors_def text_after_def same_shape_refl)
  next
    case (Some src)
    then have rd: "read_text base r p = Inr src" by (simp add: read_text_file_text)
    from Some have lk: "lookup r p = Some (File src)"
      by (auto simp: file_text_def split: option.splits fsnode.splits)
    show ?thesis
    proof (cases "fmt src")
      case (Formatted out)
      have "format_file fmt base (E0, r) p = (E0 @ turn_errors fmt base r p, write_text r p out)"
        using False rd Formatted by (simp add: format_file_def turn_errors_def)
      moreover have "\<forall>q. file_text (write_text r p out) q =
                       (if q = p then text_after fmt base r p else file_text r q)"
        using False Some Formatted file_text_write_text [OF lk]
        by (simp add: text_after_def)
      ultimately show ?thesis using same_shape_write_text by blast
    next
      case (InvalidInput e)
      then show ?thesis using False rd Some
        by (auto simp: format_file_def turn_errors_def text_after_def same_shape_refl)
    next
      case (FormatFailure e)
      then show ?thesis using False rd Some
        by (auto simp: format_file_def turn_errors_def text_after_def same_shape_refl)
    qed
  qed
qed

text \<open>A turn on a file that is already in its formatted state changes nothing.\<close>

lemma format_file_settled:
  assumes "\<not> should_skip_directory (base @ butlast p) \<longrightarrow>
           (\<forall>s out. file_text r p = Some s \<longrightarrow> fmt s = Formatted out \<longrightarrow> out = s)"
  shows "format_file fmt base (E0, r) p = (E0 @ turn_errors fmt base r p, r)"
proof (cases "should_skip_directory (base @ butlast p)")
  case True
  then show ?thesis by (simp add: format_file_def turn_errors_def)
next
  case False
  show ?thesis
  proof (cases "file_text r p")
    case None
    then have "\<exists>e. read_text base r p = Inl e" by (simp add: read_text_file_text)
    then show ?thesis using False by (auto simp: format_file_def turn_errors_def)
  next
    case (Some src)
    then have rd: "read_text base r p = Inr src" by (simp add: read_text_file_text)
    from Some have lk: "lookup r p = Some (File src)"
      by (auto simp: file_text_def split: option.splits fsnode.splits)
    show ?thesis
    proof (cases "fmt src")
      case (Formatted out)
      with assms False Some have "out = src" by simp
      with lk have "write_text r p out = r" by (simp add: write_text_same)
      then show ?thesis using False rd Formatted by (simp add: format_file_def turn_errors_def)
    next
      case (InvalidInput e)
      then show ?thesis using False rd by (simp add: format_file_def turn_errors_def)
    next
      case (FormatFailure e)
      then show ?thesis using False rd by (simp add: format_file_def turn_errors_def)
    qed
  qed
qed

text \<open>The errors of a turn depend on the shape of the tree and on the text of the file.\<close>

lemma turn_errors_cong:
  assumes "same_shape r r'" and "file_text r' p = file_text r p"
  shows "turn_errors fmt base r' p = turn_errors fmt base r p"
  using assms by (simp add: turn_errors_def read_text_file_text same_shape_def)


text \<open>The whole loop: the shape stays, and only files of the loop that are not skipped change.\<close>

lemma format_loop_frame:
  assumes "foldl (format_file fmt base) (E0, r) ps = (E', r')"
  shows "same_shape r r' \<and>
         (\<forall>q. file_text r' q \<noteq> file_text r q \<longrightarrow>
              q \<in> set ps \<and> \<not> should_skip_directory (base @ butlast q))"
  using assms
proof (induction ps arbitrary: E0 r)
  case Nil
  then show ?case by (simp add: same_shape_refl)
next
  case (Cons p ps)
  from format_file_step [of fmt base E0 r p] obtain r1 where
    step: "format_file fmt base (E0, r) p = (E0 @ turn_errors fmt base r p, r1)"
    and shape: "same_shape r r1"
    and texts: "\<forall>q. file_text r1 q = (if q = p then text_after fmt base r p else file_text r q)"
    by blast
  from Cons.prems step
  have "foldl (format_file fmt base) (E0 @ turn_errors fmt base r p, r1) ps = (E', r')" by simp
  from Cons.IH [OF this] have shape': "same_shape r1 r'"
    and texts': "\<forall>q. file_text r' q \<noteq> file_text r1 q \<longrightarrow>
              q \<in> set ps \<and> \<not> should_skip_directory (base @ butlast q)"
    by simp_all
  have "q \<in> set (p # ps) \<and> \<not> should_skip_directory (base @ butlast q)"
    if "file_text r' q \<noteq> file_text r q" for q
  proof (cases "file_text r' q = file_text r1 q")
    case False
    with texts' show ?thesis by simp
  next
    case True
    with that texts have "q = p" and "text_after fmt base r p \<noteq> file_text r p"
      by (auto split: if_splits)
    then show ?thesis by (auto simp: text_after_def split: option.splits if_splits)
  qed
  with same_shape_trans [OF shape shape'] show ?case by blast
qed

lemma text_after_idem:
  assumes "idempotent fmt" and "file_text r1 p = text_after fmt base r p"
  shows "text_after fmt base r1 p = text_after fmt base r p"
  using assms
  by (auto simp: text_after_def idempotent_def split: option.splits format_result.splits if_splits)

lemma turn_errors_idem:
  assumes "idempotent fmt" and "same_shape r r1" and "file_text r1 p = text_after fmt base r p"
  shows "turn_errors fmt base r1 p = turn_errors fmt base r p"
proof (cases "should_skip_directory (base @ butlast p)")
  case True
  then show ?thesis by (simp add: turn_errors_def)
next
  case False
  show ?thesis
  proof (cases "file_text r p")
    case None
    with assms(3) have "file_text r1 p = None" by (simp add: text_after_def)
    with None assms(2) show ?thesis by (intro turn_errors_cong) simp_all
  next
    case (Some src)
    show ?thesis
    proof (cases "fmt src")
      case (Formatted out)
      with assms(1) have "fmt out = Formatted out" by (auto simp: idempotent_def)
      moreover from assms(3) Some False Formatted have "file_text r1 p = Some out"
        by (simp add: text_after_def)
      ultimately show ?thesis using False Some Formatted
        by (simp add: turn_errors_def read_text_file_text)
    next
      case (InvalidInput e)
      with assms(3) Some False have "file_text r1 p = file_text r p" by (simp add: text_after_def)
      with assms(2) show ?thesis by (intro turn_errors_cong) simp_all
    next
      case (FormatFailure e)
      with assms(3) Some False have "file_text r1 p = file_text r p" by (simp add: text_after_def)
      with assms(2) show ?thesis by (intro turn_errors_cong) simp_all
    qed
  qed
qed

text \<open>With an idempotent formatter, the errors and the texts that the loop leaves.\<close>

lemma format_loop_result:
  assumes "idempotent fmt" and "foldl (format_file fmt base) (E0, r) ps = (E', r')"
  shows "E' = E0 @ concat (map (turn_errors fmt base r) ps) \<and>
         (\<forall>q. file_text r' q = (if q \<in> set ps then text_after fmt base r q else file_text r q))"
  using assms(2)
proof (induction ps arbitrary: E0 r)
  case Nil
  then show ?case by simp
next
  case (Cons p ps)
  from format_file_step [of fmt base E0 r p] obtain r1 where
    step: "format_file fmt base (E0, r) p = (E0 @ turn_errors fmt base r p, r1)"
    and shape: "same_shape r r1"
    and texts: "\<forall>q. file_text r1 q = (if q = p then text_after fmt base r p else file_text r q)"
    by blast
  from Cons.prems step
  have "foldl (format_file fmt base) (E0 @ turn_errors fmt base r p, r1) ps = (E', r')" by simp
  from Cons.IH [OF this]
  have E: "E' = (E0 @ turn_errors fmt base r p) @ concat (map (turn_errors fmt base r1) ps)"
    and T: "\<forall>q. file_text r' q = (if q \<in> set ps then text_after fmt base r1 q else file_text r1 q)"
    by simp_all
  have ta: "text_after fmt base r1 q = text_after fmt base r q" for q
  proof (cases "q = p")
    case True
    with texts assms(1) show ?thesis by (simp add: text_after_idem)
  next
    case False
    with texts show ?thesis by (simp add: text_after_def)
  qed
  have te: "turn_errors fmt base r1 q = turn_errors fmt base r q" for q
  proof (cases "q = p")
    case True
    with texts assms(1) shape show ?thesis by (simp add: turn_errors_idem)
  next
    case False
    with texts shape show ?thesis by (intro turn_errors_cong) simp_all
  qed
  have "turn_errors fmt base r1 = turn_errors fmt base r" by (rule ext) (rule te)
  with E have "E' = E0 @ concat (map (turn_errors fmt base r) (p # ps))"
    by simp
  moreover have "\<forall>q. file_text r' q =
      (if q \<in> set (p # ps) then text_after fmt base r q else file_text r q)"
    using T texts by (simp add: ta)
  ultimately show ?case by blast
qed

text \<open>A loop over files that are all in their formatted state changes nothing.\<close>

lemma format_loop_settled:
  assumes "\<forall>p\<in>set ps. \<not> should_skip_directory (base @ butlast p) \<longrightarrow>
             (\<forall>s out. file_text r p = Some s \<longrightarrow> fmt s = Formatted out \<longrightarrow> out = s)"
  shows "foldl (format_file fmt base) (E0, r) ps =
           (E0 @ concat (map (turn_errors fmt base r) ps), r)"
  using assms
proof (induction ps arbitrary: E0)
  case Nil
  show ?case by simp
next
  case (Cons p ps)
  have "format_file fmt base (E0, r) p = (E0 @ turn_errors fmt base r p, r)"
    using Cons.prems by (intro format_file_settled) simp
  moreover have "foldl (format_file fmt base) (E0 @ turn_errors fmt base r p, r) ps =
           ((E0 @ turn_errors fmt base r p) @ concat (map (turn_errors fmt base r) ps), r)"
    using Cons.prems by (intro Cons.IH) simp
  ultimately show ?case by simp
qed

lemma format_python_files_twice:
  assumes idem: "idempotent fmt" and run: "format_python_files fmt base r = (E, r1)"
  shows "format_python_files fmt base r1 = (E, r1)"
proof -
  let ?ps = "rglob py_pattern [] r"
  from run have loop: "foldl (format_file fmt base) ([], r) ?ps = (E, r1)"
    by (simp add: format_python_files_def)
  from format_loop_frame [OF loop] have shape: "same_shape r r1" by simp
  then have ps: "rglob py_pattern [] r1 = ?ps" by (simp add: same_shape_def)
  from format_loop_result [OF idem loop]
  have E: "E = concat (map (turn_errors fmt base r) ?ps)"
    and T: "\<forall>q. file_text r1 q = (if q \<in> set ?ps then text_after fmt base r q else file_text r q)"
    by simp_all
  have settled: "\<forall>p\<in>set ?ps. \<not> should_skip_directory (base @ butlast p) \<longrightarrow>
             (\<forall>s out. file_text r1 p = Some s \<longrightarrow> fmt s = Formatted out \<longrightarrow> out = s)"
    using T idem
    by (auto simp: text_after_def idempotent_def split: option.splits format_result.splits)
  have "map (turn_errors fmt base r1) ?ps = map (turn_errors fmt base r) ?ps"
    using T idem shape by (intro map_cong refl turn_errors_idem) simp_all
  with format_loop_settled [OF settled, of "[]"] E ps show ?thesis
    by (simp add: format_python_files_def)
qed

text \<open>
  Claim C2, amended. \<open>validate_container_structure\<close> is not pure: it formats the
  Python files of the container in place. What it does to the directory is
  limited as follows. The tree keeps its shape: no path appears or disappears,
  and directories stay directories. The only files whose text can change are
  those that \<open>rglob("*.py")\<close> lists and that are not under a skipped directory.
  Nothing changes when the container is excluded or has no Python code. And
  when the formatter is idempotent, a second invocation, on the directory as
  the first one left it, returns the same findings in the same order and
  leaves the directory as it is.
\<close>

theorem validate_container_structure_effect:
  assumes "validate_container_structure fmt parse base root = (errors, root')"
  shows "same_shape root root'
         \<and> (\<forall>q. file_text root' q \<noteq> file_text root q \<longrightarrow>
                q \<in> set (rglob py_pattern [] root) \<and> \<not> should_skip_directory (base @ butlast q))
         \<and> (path_name base \<in> EXCLUDED_DIRS \<or> \<not> has_python_code root \<longrightarrow> root' = root)
         \<and> (idempotent fmt \<longrightarrow>
                validate_container_structure fmt parse base root' = (errors, root'))"
proof (cases "path_name base \<in> EXCLUDED_DIRS \<or> \<not> has_python_code root")
  case True
  with assms have "root' = root"
    by (auto simp: validate_container_structure_def split: if_splits)
  with assms True show ?thesis by (auto simp: same_shape_refl)
next
  case False
  then obtain E where run: "format_python_files fmt base root = (E, root')"
    and errors: "errors = E @ structure_checks parse base root'"
    using assms by (auto simp: validate_container_structure_def split: prod.splits)
  from run have loop: "foldl (format_file fmt base) ([], root) (rglob py_pattern [] root) = (E, root')"
    by (simp add: format_python_files_def)
  note frame = format_loop_frame [OF loop]
  from frame have "has_python_code root' = has_python_code root"
    by (simp add: has_python_code_def same_shape_def)
  with False have py: "has_python_code root'" by simp
  have "validate_container_structure fmt parse base root' = (errors, root')" if "idempotent fmt"
    using format_python_files_twice [OF that run] False py errors
    by (simp add: validate_container_structure_def)
  with frame False show ?thesis by blast
qed

lemmas package_defs =
  format_python_files_def format_file_def should_skip_directory_def validate_python_package_def
  validate_init_file_def validate_imports_def init_tree_errors_def import_tree_errors_def
  import_error_def is_all_assign_def is_import_from_def walk_def rglob_under_def any_pattern_def
  name_parts_def endswith_def startswith_def sample_format_def sample_parse_def
  sample_root_formatted_def

lemma sample_run:
  "validate_container_structure sample_format sample_parse sample_base sample_root =
     ([''Missing __all__ definition in containers/svc/src/svc/__init__.py when it contains imports'',
       ''Missing __all__ definition in containers/svc/src/svc/__init__.py when it contains imports'',
       ''Relative import found in containers/svc/src/svc/util.py: from . import ...''],
      sample_root_formatted)"
  by (simp add: container_defs fs_defs package_defs)

lemma sample_format_idempotent: "idempotent sample_format"
  by (simp add: idempotent_def sample_format_def)

lemma monitor_run:
  "validate_container_structure sample_format sample_parse (fst monitor_with_pyproject)
     (snd monitor_with_pyproject) = ([], snd monitor_with_pyproject)"
  by (simp add: monitor_with_pyproject_def container_defs)

theorem validate_container_structure_effect_witness:
  "validate_container_structure sample_format sample_parse sample_base sample_root_formatted =
     ([''Missing __all__ definition in containers/svc/src/svc/__init__.py when it contains imports'',
       ''Missing __all__ definition in containers/svc/src/svc/__init__.py when it contains imports'',
       ''Relative import found in containers/svc/src/svc/util.py: from . import ...''],
      sample_root_formatted)
   \<and> same_shape sample_root sample_root_formatted
   \<and> [''src'', ''svc'', ''core.py''] \<in> set (rglob py_pattern [] sample_root)
   \<and> \<not> should_skip_directory (sample_base @ [''src'', ''svc''])
   \<and> file_text sample_root_formatted [''Dockerfile''] = file_text sample_root [''Dockerfile'']
   \<and> \<not> has_python_code (snd monitor_with_pyproject)
   \<and> same_shape (snd monitor_with_pyproject) (snd monitor_with_pyproject)"
proof -
  note effect = validate_container_structure_effect [OF sample_run]
  have changed: "file_text sample_root_formatted [''src'', ''svc'', ''core.py''] \<noteq>
                 file_text sample_root [''src'', ''svc'', ''core.py'']"
    by (simp add: file_text_def sample_root_def sample_root_formatted_def
        formatted_source_def unformatted_source_def unlines_def)
  have listed: "[''src'', ''svc'', ''core.py''] \<in> set (rglob py_pattern [] sample_root) \<and>
                \<not> should_skip_directory (sample_base @ butlast [''src'', ''svc'', ''core.py''])"
    using effect changed by blast
  have "[''Dockerfile''] \<notin> set (rglob py_pattern [] sample_root)"
    by (simp add: sample_root_def py_pattern_def endswith_def)
  then have kept: "file_text sample_root_formatted [''Dockerfile''] =
                   file_text sample_root [''Dockerfile'']"
    using effect by blast
  have no_python: "\<not> has_python_code (snd monitor_with_pyproject)"
    by (simp add: monitor_with_pyproject_def has_python_code_def exists_def)
  show ?thesis
    using effect sample_format_idempotent listed kept no_python
      validate_container_structure_effect [OF monitor_run]
    by simp
qed

text \<open>
  Claim C2, as stated, fails. The file \<open>src/svc/core.py\<close> of the sample container
  holds \<open>x=1\<close>; after \<open>validate_container_structure\<close> it holds \<open>x = 1\<close>: the
  checker has changed the artifact that it checks.
\<close>

theorem validate_container_structure_counterexample:
  "file_text sample_root [''src'', ''svc'', ''core.py''] = Some unformatted_source
   \<and> snd (validate_container_structure sample_format sample_parse sample_base sample_root) =
       sample_root_formatted
   \<and> file_text sample_root_formatted [''src'', ''svc'', ''core.py''] = Some formatted_source
   \<and> formatted_source \<noteq> unformatted_source"
proof -
  have 1: "file_text sample_root [''src'', ''svc'', ''core.py''] = Some unformatted_source"
    by (simp add: file_text_def sample_root_def)
  have 2: "file_text sample_root_formatted [''src'', ''svc'', ''core.py''] = Some formatted_source"
    by (simp add: file_text_def sample_root_formatted_def)
  have 3: "formatted_source \<noteq> unformatted_source"
    by (simp add: formatted_source_def unformatted_source_def unlines_def)
  show ?thesis using 1 2 3 by (simp add: sample_run)
qed

end
